theory Spec2Isabelle
  imports Main "HOL-Library.Word"
begin

section \<open>Type tags, action tags and failures\<close>

text \<open>
  Modelled from the spec: the enumerations \<open>OverheadType\<close>, \<open>PrimaryType\<close> and \<open>Action\<close>
  are declared in a header that is not among the sources; the enumerators are the ones the
  runtime file names, and the spec lists the same closed sets (four unsigned widths plus the
  index alias; ten value kinds; seven actions).  \<open>Action\<close> is a scoped enumeration over a
  32-bit integer, so an \<open>Action\<close> object can hold a number that is none of the seven
  enumerators; \<open>kActionOutOfRange\<close> stands for such a value, which the \<open>switch\<close> of the
  dispatcher lets fall through.
\<close>

datatype OverheadType = kIndex | kU64 | kU32 | kU16 | kU8

datatype PrimaryType = kF64 | kF32 | kF16 | kBF16 | kI64 | kI32 | kI16 | kI8 | kC64 | kC32

datatype Action =
  kEmpty | kFromCOO | kSparseToSparse | kEmptyCOO | kToCOO | kToIterator | kPack
  | kActionOutOfRange

text \<open>The C++ types a specialization is instantiated with (the template arguments P, C, V).\<close>

datatype overhead_ctype = uint64_t | uint32_t | uint16_t | uint8_t

datatype value_ctype =
  double | float | f16 | bf16 | int64_t | int32_t | int16_t | int8_t | complex64 | complex32

text \<open>
  A call either returns or ends the process.  \<open>Fatal\<close> is the runtime diagnostic (format
  string and arguments), \<open>AssertionFailed\<close> the abort of a failed \<open>assert\<close> in a build
  with assertions, \<open>UndefinedBehaviour\<close> an access the C++ standard gives no meaning to.
\<close>

datatype fatal_arg =
  ArgOverhead OverheadType | ArgPrimary PrimaryType | ArgAction Action | ArgString string

datatype error = Fatal string "fatal_arg list" | AssertionFailed string | UndefinedBehaviour

definition and_then :: "error + 'a \<Rightarrow> ('a \<Rightarrow> error + 'b) \<Rightarrow> error + 'b" where
  "and_then m f = (case m of Inl e \<Rightarrow> Inl e | Inr x \<Rightarrow> f x)"

text \<open>
  Modelled from the spec: the macro \<open>MLIR_SPARSETENSOR_FATAL\<close> is defined in a header that
  is not among the sources; by the spec a fatal runtime diagnostic always terminates the
  process with a descriptive message.
\<close>

definition MLIR_SPARSETENSOR_FATAL :: "string \<Rightarrow> fatal_arg list \<Rightarrow> error + 'a" where
  "MLIR_SPARSETENSOR_FATAL fmt args = Inl (Fatal fmt args)"

text \<open>
  The \<open>assert\<close> of the C library: with \<open>NDEBUG\<close> defined (\<open>ndebug\<close>) it expands to
  nothing, otherwise a false condition aborts the process.
\<close>

definition assert :: "bool \<Rightarrow> bool \<Rightarrow> string \<Rightarrow> error + unit" where
  "assert ndebug cond msg = (if ndebug \<or> cond then Inr () else Inl (AssertionFailed msg))"

section \<open>Dense-buffer descriptors\<close>

text \<open>
  \<open>StridedMemRefType<T, 0>\<close> holds a data pointer and an offset; the rank-1 descriptor
  adds \<open>sizes[0]\<close> and \<open>strides[0]\<close> (signed 64-bit).  \<open>data\<close> is the array the data
  pointer points to, from that pointer on.  A pointer to a descriptor may be null: \<open>None\<close>.
\<close>

type_synonym index_type = "64 word"
type_synonym DimLevelType = "8 word"

record 'a StridedMemRefType0 =
  data :: "'a list"
  offset :: nat

record 'a StridedMemRefType1 = "'a StridedMemRefType0" +
  sizes :: int
  strides :: int

definition deref :: "'a option \<Rightarrow> error + 'a" where
  "deref p = (case p of None \<Rightarrow> Inl UndefinedBehaviour | Some x \<Rightarrow> Inr x)"

definition ASSERT_NO_STRIDE :: "bool \<Rightarrow> ('a, 'b) StridedMemRefType1_scheme option \<Rightarrow> error + unit" where
  "ASSERT_NO_STRIDE ndebug MEMREF =
     (if ndebug then Inr ()
      else case MEMREF of
             None \<Rightarrow> Inl (AssertionFailed ''Memref is nullptr'')
           | Some m \<Rightarrow> assert ndebug (strides m = 1) ''Memref has non-trivial stride'')"

text \<open>
  Modelled from the spec: \<open>detail::checkOverflowCast<uint64_t>\<close> is declared in a header
  that is not among the sources.  The spec counts the checks on sizes among the debug-time
  assertions, and the comment at \<open>MEMREF_GET_USIZE\<close> describes the function as a
  \<open>static_cast\<close> made safe against a negative size: an assertion, then the cast.
\<close>

definition checkOverflowCast :: "bool \<Rightarrow> int \<Rightarrow> error + nat" where
  "checkOverflowCast ndebug x =
     and_then (assert ndebug (0 \<le> x) ''cast would underflow'')
       (\<lambda>_. Inr (nat (x mod 2 ^ 64)))"

definition MEMREF_GET_USIZE :: "bool \<Rightarrow> ('a, 'b) StridedMemRefType1_scheme option \<Rightarrow> error + nat" where
  "MEMREF_GET_USIZE ndebug MEMREF =
     and_then (deref MEMREF) (\<lambda>m. checkOverflowCast ndebug (sizes m))"

definition ASSERT_USIZE_EQ :: "bool \<Rightarrow> ('a, 'b) StridedMemRefType1_scheme option \<Rightarrow> nat \<Rightarrow> error + unit" where
  "ASSERT_USIZE_EQ ndebug MEMREF SZ =
     (if ndebug then Inr ()
      else and_then (MEMREF_GET_USIZE ndebug MEMREF)
             (\<lambda>n. assert ndebug (n = SZ) ''Memref size mismatch''))"

definition MEMREF_GET_PAYLOAD :: "('a, 'b) StridedMemRefType0_scheme option \<Rightarrow> error + 'a list" where
  "MEMREF_GET_PAYLOAD MEMREF = and_then (deref MEMREF) (\<lambda>m. Inr (drop (offset m) (data m)))"

text \<open>Reading \<open>p[i]\<close> and writing \<open>p[i] = v\<close> through a pointer into an array.\<close>

definition read_at :: "'a list \<Rightarrow> nat \<Rightarrow> error + 'a" where
  "read_at p i = (if i < length p then Inr (p ! i) else Inl UndefinedBehaviour)"

definition write_at :: "'a list \<Rightarrow> nat \<Rightarrow> 'a \<Rightarrow> error + 'a list" where
  "write_at p i v = (if i < length p then Inr (p[i := v]) else Inl UndefinedBehaviour)"

text \<open>A counted \<open>for\<close> loop over the indices \<open>ds\<close>; a failing iteration ends it.\<close>

fun for_loop :: "nat list \<Rightarrow> (nat \<Rightarrow> 's \<Rightarrow> error + 's) \<Rightarrow> 's \<Rightarrow> error + 's" where
  "for_loop [] body s = Inr s"
| "for_loop (d # ds) body s = and_then (body d s) (for_loop ds body)"

section \<open>Objects behind the opaque handles\<close>

text \<open>
  Modelled from the spec: the class \<open>SparseTensorCOO<V>\<close> and its \<open>Element<V>\<close> are
  declared in a header that is not among the sources.  By the spec a coordinate list is an
  ordered sequence of (coordinate-tuple, value) pairs at a fixed rank, created empty at
  given sizes; \<open>add\<close> appends one pair.  The members carry the prefix of their class
  (\<open>elem_\<close>, \<open>coo_\<close>, \<open>iter_\<close>), since the functions below have locals of the same names.
\<close>

record 'v Element =
  elem_coords :: "index_type list"
  elem_value :: 'v

record 'v SparseTensorCOO =
  coo_dimSizes :: "index_type list"
  coo_elements :: "'v Element list"

definition SparseTensorCOO_new :: "nat \<Rightarrow> index_type list \<Rightarrow> error + 'v SparseTensorCOO" where
  "SparseTensorCOO_new dimRank sizes_ptr =
     (if dimRank \<le> length sizes_ptr
      then Inr \<lparr>coo_dimSizes = take dimRank sizes_ptr, coo_elements = []\<rparr>
      else Inl UndefinedBehaviour)"

definition add :: "'v SparseTensorCOO \<Rightarrow> index_type list \<Rightarrow> 'v \<Rightarrow> 'v SparseTensorCOO" where
  "add c dimCoords v =
     c\<lparr>coo_elements := coo_elements c @ [\<lparr>elem_coords = dimCoords, elem_value = v\<rparr>]\<rparr>"

text \<open>
  The class \<open>SparseTensorIterator<V>\<close>: the owning pointer \<open>coo\<close> and the two vector
  iterators, held as positions in the element vector.
\<close>

type_synonym addr = nat

record SparseTensorIterator =
  iter_coo :: addr
  iter_it :: nat
  iter_end :: nat

text \<open>
  An output stream (\<open>SparseTensorWriter\<close> is \<open>std::ostream\<close>): the characters inserted
  and not yet flushed, the state flag that \<open>good()\<close> reads, and the name of the device the
  stream writes to (the file name of a file stream; the empty name for the standard
  output).  An insertion into a stream that is not good inserts nothing.
\<close>

record ostream =
  pending :: string
  good :: bool
  target :: string

text \<open>
  The store: what lives at each address, and the next address \<open>new\<close> hands out.
  Address 0 is the null pointer (in a store of a running program nothing lives there),
  \<open>std_cout\<close> the address of the standard output stream.  With the store come the
  devices behind the streams: \<open>written\<close> is what each device has received so far (it
  outlives the stream object), and \<open>takes t s c\<close> is the number of characters the device \<open>t\<close>, having
  received \<open>s\<close>, takes of a write of \<open>c\<close> (a full disk takes none).  The storage specializations and the file reader
  are external collaborators (types \<open>'s\<close> and \<open>'r\<close>); a storage object carries the
  template arguments it was instantiated with, a coordinate list and an iterator their
  value type.
\<close>

datatype ('s, 'r, 'v) object =
    StorageObj overhead_ctype overhead_ctype value_ctype 's
  | COOObj value_ctype "'v SparseTensorCOO"
  | IteratorObj value_ctype SparseTensorIterator
  | BuffersObj "64 word list"
  | ReaderObj 'r
  | OStreamObj ostream

record ('s, 'r, 'v) heap =
  cells :: "addr \<Rightarrow> ('s, 'r, 'v) object option"
  brk :: addr
  written :: "string \<Rightarrow> string"
  takes :: "string \<Rightarrow> string \<Rightarrow> string \<Rightarrow> nat"

definition std_cout :: addr where
  "std_cout = 1"

definition new :: "('s, 'r, 'v) object \<Rightarrow> ('s, 'r, 'v) heap \<Rightarrow> addr \<times> ('s, 'r, 'v) heap" where
  "new obj h = (brk h, h\<lparr>cells := (cells h)(brk h \<mapsto> obj), brk := Suc (brk h)\<rparr>)"

definition delete :: "addr \<Rightarrow> ('s, 'r, 'v) heap \<Rightarrow> ('s, 'r, 'v) heap" where
  "delete a h = h\<lparr>cells := (cells h)(a := None)\<rparr>"

text \<open>The \<open>static_cast\<close>s of a \<open>void *\<close> followed by an access through the result.\<close>

definition as_COO :: "value_ctype \<Rightarrow> ('s, 'r, 'v) heap \<Rightarrow> addr \<Rightarrow> error + 'v SparseTensorCOO" where
  "as_COO V h p =
     (case cells h p of
        Some (COOObj V' c) \<Rightarrow> if V' = V then Inr c else Inl UndefinedBehaviour
      | _ \<Rightarrow> Inl UndefinedBehaviour)"

definition as_Storage ::
  "overhead_ctype \<Rightarrow> overhead_ctype \<Rightarrow> value_ctype \<Rightarrow> ('s, 'r, 'v) heap \<Rightarrow> addr \<Rightarrow> error + 's" where
  "as_Storage P C V h p =
     (case cells h p of
        Some (StorageObj P' C' V' t) \<Rightarrow>
          if P' = P \<and> C' = C \<and> V' = V then Inr t else Inl UndefinedBehaviour
      | _ \<Rightarrow> Inl UndefinedBehaviour)"

definition as_StorageBase :: "('s, 'r, 'v) heap \<Rightarrow> addr \<Rightarrow> error + 's" where
  "as_StorageBase h p =
     (case cells h p of
        Some (StorageObj P' C' V' t) \<Rightarrow> Inr t
      | _ \<Rightarrow> Inl UndefinedBehaviour)"

definition as_Buffers :: "('s, 'r, 'v) heap \<Rightarrow> addr \<Rightarrow> error + 64 word list" where
  "as_Buffers h p =
     (case cells h p of
        Some (BuffersObj b) \<Rightarrow> Inr b
      | _ \<Rightarrow> Inl UndefinedBehaviour)"

definition as_Iterator :: "value_ctype \<Rightarrow> ('s, 'r, 'v) heap \<Rightarrow> addr \<Rightarrow> error + SparseTensorIterator" where
  "as_Iterator V h p =
     (case cells h p of
        Some (IteratorObj V' i) \<Rightarrow> if V' = V then Inr i else Inl UndefinedBehaviour
      | _ \<Rightarrow> Inl UndefinedBehaviour)"

definition as_Reader :: "('s, 'r, 'v) heap \<Rightarrow> addr \<Rightarrow> error + 'r" where
  "as_Reader h p =
     (case cells h p of
        Some (ReaderObj r) \<Rightarrow> Inr r
      | _ \<Rightarrow> Inl UndefinedBehaviour)"

definition as_Writer :: "('s, 'r, 'v) heap \<Rightarrow> addr \<Rightarrow> error + ostream" where
  "as_Writer h p =
     (case cells h p of
        Some (OStreamObj w) \<Rightarrow> Inr w
      | _ \<Rightarrow> Inl UndefinedBehaviour)"

text \<open>
  The member functions of the storage specializations and of the reader that the runtime
  file calls; their code is in headers that are not among the sources, so they are
  parameters.  Each takes the template arguments first, then the arguments of the call.
\<close>

record ('s, 'r, 'v) library =
  newEmpty :: "overhead_ctype \<Rightarrow> overhead_ctype \<Rightarrow> value_ctype \<Rightarrow>
     nat \<Rightarrow> index_type list \<Rightarrow> nat \<Rightarrow> index_type list \<Rightarrow> DimLevelType list \<Rightarrow> index_type list
     \<Rightarrow> error + 's"
  newFromCOO :: "overhead_ctype \<Rightarrow> overhead_ctype \<Rightarrow> value_ctype \<Rightarrow>
     nat \<Rightarrow> index_type list \<Rightarrow> nat \<Rightarrow> DimLevelType list \<Rightarrow> index_type list \<Rightarrow> 'v SparseTensorCOO
     \<Rightarrow> error + ('s \<times> 'v SparseTensorCOO)"
  newFromSparseTensor :: "overhead_ctype \<Rightarrow> overhead_ctype \<Rightarrow> value_ctype \<Rightarrow>
     nat \<Rightarrow> index_type list \<Rightarrow> nat \<Rightarrow> index_type list \<Rightarrow> DimLevelType list \<Rightarrow> index_type list
     \<Rightarrow> nat \<Rightarrow> index_type list \<Rightarrow> 's \<Rightarrow> error + 's"
  toCOO :: "overhead_ctype \<Rightarrow> overhead_ctype \<Rightarrow> value_ctype \<Rightarrow>
     's \<Rightarrow> nat \<Rightarrow> index_type list \<Rightarrow> nat \<Rightarrow> index_type list \<Rightarrow> error + 'v SparseTensorCOO"
  packFromLvlBuffers :: "overhead_ctype \<Rightarrow> overhead_ctype \<Rightarrow> value_ctype \<Rightarrow>
     nat \<Rightarrow> index_type list \<Rightarrow> nat \<Rightarrow> index_type list \<Rightarrow> DimLevelType list \<Rightarrow> index_type list
     \<Rightarrow> nat \<Rightarrow> index_type list \<Rightarrow> 64 word list \<Rightarrow> error + 's"
  getRank :: "'r \<Rightarrow> nat"
  readSparseTensor :: "overhead_ctype \<Rightarrow> overhead_ctype \<Rightarrow> value_ctype \<Rightarrow>
     'r \<Rightarrow> nat \<Rightarrow> index_type list \<Rightarrow> DimLevelType list \<Rightarrow> index_type list \<Rightarrow> index_type list
     \<Rightarrow> error + ('s \<times> 'r)"

section \<open>The specialization dispatcher\<close>

text \<open>
  One entry per \<open>CASE\<close> line, in the order of the source: the three tags compared and the
  three template arguments of the specialization selected.
\<close>

type_synonym case_entry =
  "OverheadType \<times> OverheadType \<times> PrimaryType \<times> overhead_ctype \<times> overhead_ctype \<times> value_ctype"

definition CASE_SECSAME ::
  "OverheadType \<Rightarrow> PrimaryType \<Rightarrow> overhead_ctype \<Rightarrow> value_ctype \<Rightarrow> case_entry" where
  "CASE_SECSAME p v P V = (p, p, v, P, P, V)"

definition newSparseTensor_cases :: "case_entry list" where
  "newSparseTensor_cases = [
    (kU64, kU64, kF64, uint64_t, uint64_t, double),
    (kU64, kU32, kF64, uint64_t, uint32_t, double),
    (kU64, kU16, kF64, uint64_t, uint16_t, double),
    (kU64, kU8, kF64, uint64_t, uint8_t, double),
    (kU32, kU64, kF64, uint32_t, uint64_t, double),
    (kU32, kU32, kF64, uint32_t, uint32_t, double),
    (kU32, kU16, kF64, uint32_t, uint16_t, double),
    (kU32, kU8, kF64, uint32_t, uint8_t, double),
    (kU16, kU64, kF64, uint16_t, uint64_t, double),
    (kU16, kU32, kF64, uint16_t, uint32_t, double),
    (kU16, kU16, kF64, uint16_t, uint16_t, double),
    (kU16, kU8, kF64, uint16_t, uint8_t, double),
    (kU8, kU64, kF64, uint8_t, uint64_t, double),
    (kU8, kU32, kF64, uint8_t, uint32_t, double),
    (kU8, kU16, kF64, uint8_t, uint16_t, double),
    (kU8, kU8, kF64, uint8_t, uint8_t, double),
    (kU64, kU64, kF32, uint64_t, uint64_t, float),
    (kU64, kU32, kF32, uint64_t, uint32_t, float),
    (kU64, kU16, kF32, uint64_t, uint16_t, float),
    (kU64, kU8, kF32, uint64_t, uint8_t, float),
    (kU32, kU64, kF32, uint32_t, uint64_t, float),
    (kU32, kU32, kF32, uint32_t, uint32_t, float),
    (kU32, kU16, kF32, uint32_t, uint16_t, float),
    (kU32, kU8, kF32, uint32_t, uint8_t, float),
    (kU16, kU64, kF32, uint16_t, uint64_t, float),
    (kU16, kU32, kF32, uint16_t, uint32_t, float),
    (kU16, kU16, kF32, uint16_t, uint16_t, float),
    (kU16, kU8, kF32, uint16_t, uint8_t, float),
    (kU8, kU64, kF32, uint8_t, uint64_t, float),
    (kU8, kU32, kF32, uint8_t, uint32_t, float),
    (kU8, kU16, kF32, uint8_t, uint16_t, float),
    (kU8, kU8, kF32, uint8_t, uint8_t, float),
    CASE_SECSAME kU64 kF16 uint64_t f16,
    CASE_SECSAME kU64 kBF16 uint64_t bf16,
    CASE_SECSAME kU32 kF16 uint32_t f16,
    CASE_SECSAME kU32 kBF16 uint32_t bf16,
    CASE_SECSAME kU16 kF16 uint16_t f16,
    CASE_SECSAME kU16 kBF16 uint16_t bf16,
    CASE_SECSAME kU8 kF16 uint8_t f16,
    CASE_SECSAME kU8 kBF16 uint8_t bf16,
    CASE_SECSAME kU64 kI64 uint64_t int64_t,
    CASE_SECSAME kU64 kI32 uint64_t int32_t,
    CASE_SECSAME kU64 kI16 uint64_t int16_t,
    CASE_SECSAME kU64 kI8 uint64_t int8_t,
    CASE_SECSAME kU32 kI64 uint32_t int64_t,
    CASE_SECSAME kU32 kI32 uint32_t int32_t,
    CASE_SECSAME kU32 kI16 uint32_t int16_t,
    CASE_SECSAME kU32 kI8 uint32_t int8_t,
    CASE_SECSAME kU16 kI64 uint16_t int64_t,
    CASE_SECSAME kU16 kI32 uint16_t int32_t,
    CASE_SECSAME kU16 kI16 uint16_t int16_t,
    CASE_SECSAME kU16 kI8 uint16_t int8_t,
    CASE_SECSAME kU8 kI64 uint8_t int64_t,
    CASE_SECSAME kU8 kI32 uint8_t int32_t,
    CASE_SECSAME kU8 kI16 uint8_t int16_t,
    CASE_SECSAME kU8 kI8 uint8_t int8_t,
    CASE_SECSAME kU64 kC64 uint64_t complex64,
    CASE_SECSAME kU64 kC32 uint64_t complex32
  ]"

definition newSparseTensorFromReader_cases :: "case_entry list" where
  "newSparseTensorFromReader_cases = [
    (kU64, kU64, kF64, uint64_t, uint64_t, double),
    (kU64, kU32, kF64, uint64_t, uint32_t, double),
    (kU64, kU16, kF64, uint64_t, uint16_t, double),
    (kU64, kU8, kF64, uint64_t, uint8_t, double),
    (kU32, kU64, kF64, uint32_t, uint64_t, double),
    (kU32, kU32, kF64, uint32_t, uint32_t, double),
    (kU32, kU16, kF64, uint32_t, uint16_t, double),
    (kU32, kU8, kF64, uint32_t, uint8_t, double),
    (kU16, kU64, kF64, uint16_t, uint64_t, double),
    (kU16, kU32, kF64, uint16_t, uint32_t, double),
    (kU16, kU16, kF64, uint16_t, uint16_t, double),
    (kU16, kU8, kF64, uint16_t, uint8_t, double),
    (kU8, kU64, kF64, uint8_t, uint64_t, double),
    (kU8, kU32, kF64, uint8_t, uint32_t, double),
    (kU8, kU16, kF64, uint8_t, uint16_t, double),
    (kU8, kU8, kF64, uint8_t, uint8_t, double),
    (kU64, kU64, kF32, uint64_t, uint64_t, float),
    (kU64, kU32, kF32, uint64_t, uint32_t, float),
    (kU64, kU16, kF32, uint64_t, uint16_t, float),
    (kU64, kU8, kF32, uint64_t, uint8_t, float),
    (kU32, kU64, kF32, uint32_t, uint64_t, float),
    (kU32, kU32, kF32, uint32_t, uint32_t, float),
    (kU32, kU16, kF32, uint32_t, uint16_t, float),
    (kU32, kU8, kF32, uint32_t, uint8_t, float),
    (kU16, kU64, kF32, uint16_t, uint64_t, float),
    (kU16, kU32, kF32, uint16_t, uint32_t, float),
    (kU16, kU16, kF32, uint16_t, uint16_t, float),
    (kU16, kU8, kF32, uint16_t, uint8_t, float),
    (kU8, kU64, kF32, uint8_t, uint64_t, float),
    (kU8, kU32, kF32, uint8_t, uint32_t, float),
    (kU8, kU16, kF32, uint8_t, uint16_t, float),
    (kU8, kU8, kF32, uint8_t, uint8_t, float),
    CASE_SECSAME kU64 kF16 uint64_t f16,
    CASE_SECSAME kU64 kBF16 uint64_t bf16,
    CASE_SECSAME kU32 kF16 uint32_t f16,
    CASE_SECSAME kU32 kBF16 uint32_t bf16,
    CASE_SECSAME kU16 kF16 uint16_t f16,
    CASE_SECSAME kU16 kBF16 uint16_t bf16,
    CASE_SECSAME kU8 kF16 uint8_t f16,
    CASE_SECSAME kU8 kBF16 uint8_t bf16,
    CASE_SECSAME kU64 kI64 uint64_t int64_t,
    CASE_SECSAME kU64 kI32 uint64_t int32_t,
    CASE_SECSAME kU64 kI16 uint64_t int16_t,
    CASE_SECSAME kU64 kI8 uint64_t int8_t,
    CASE_SECSAME kU32 kI64 uint32_t int64_t,
    CASE_SECSAME kU32 kI32 uint32_t int32_t,
    CASE_SECSAME kU32 kI16 uint32_t int16_t,
    CASE_SECSAME kU32 kI8 uint32_t int8_t,
    CASE_SECSAME kU16 kI64 uint16_t int64_t,
    CASE_SECSAME kU16 kI32 uint16_t int32_t,
    CASE_SECSAME kU16 kI16 uint16_t int16_t,
    CASE_SECSAME kU16 kI8 uint16_t int8_t,
    CASE_SECSAME kU8 kI64 uint8_t int64_t,
    CASE_SECSAME kU8 kI32 uint8_t int32_t,
    CASE_SECSAME kU8 kI16 uint8_t int16_t,
    CASE_SECSAME kU8 kI8 uint8_t int8_t,
    CASE_SECSAME kU64 kC64 uint64_t complex64,
    CASE_SECSAME kU64 kC32 uint64_t complex32
  ]"

text \<open>The chain of \<open>if\<close>s the \<open>CASE\<close> lines expand to: the first entry whose tags all match.\<close>

fun first_match ::
  "case_entry list \<Rightarrow> OverheadType \<Rightarrow> OverheadType \<Rightarrow> PrimaryType
   \<Rightarrow> (overhead_ctype \<times> overhead_ctype \<times> value_ctype) option" where
  "first_match [] posTp crdTp valTp = None"
| "first_match ((p, c, v, P, C, V) # rest) posTp crdTp valTp =
     (if posTp = p \<and> crdTp = c \<and> valTp = v then Some (P, C, V)
      else first_match rest posTp crdTp valTp)"

text \<open>The rewrite of the index alias, done on both overhead tags before the chain.\<close>

definition rewrite_kIndex :: "OverheadType \<Rightarrow> OverheadType" where
  "rewrite_kIndex tp = (if tp = kIndex then kU64 else tp)"

definition store :: "addr \<Rightarrow> ('s, 'r, 'v) object \<Rightarrow> ('s, 'r, 'v) heap \<Rightarrow> ('s, 'r, 'v) heap" where
  "store a obj h = h\<lparr>cells := (cells h)(a \<mapsto> obj)\<rparr>"

text \<open>The constructor of \<open>SparseTensorIterator<V>\<close>: \<open>it\<close> at \<open>begin()\<close>, \<open>end\<close> at \<open>end()\<close>.\<close>

definition SparseTensorIterator_new :: "addr \<Rightarrow> 'v SparseTensorCOO \<Rightarrow> SparseTensorIterator" where
  "SparseTensorIterator_new a c = \<lparr>iter_coo = a, iter_it = 0, iter_end = length (coo_elements c)\<rparr>"

text \<open>
  The body of one \<open>CASE\<close>: the \<open>switch\<close> over the action for the specialization
  \<open>P, C, V\<close>, and the diagnostic behind the \<open>switch\<close>.
\<close>

definition CASE ::
  "('s, 'r, 'v) library \<Rightarrow> bool \<Rightarrow> ('s, 'r, 'v) heap \<Rightarrow>
   nat \<Rightarrow> index_type list \<Rightarrow> nat \<Rightarrow> index_type list \<Rightarrow> DimLevelType list \<Rightarrow>
   index_type list \<Rightarrow> index_type list \<Rightarrow> Action \<Rightarrow> addr \<Rightarrow>
   overhead_ctype \<Rightarrow> overhead_ctype \<Rightarrow> value_ctype \<Rightarrow> error + (addr \<times> ('s, 'r, 'v) heap)" where
  "CASE lib ndebug h dimRank dimSizes lvlRank lvlSizes lvlTypes dim2lvl lvl2dim action ptr P C V =
     (case action of
        kEmpty \<Rightarrow>
          and_then (newEmpty lib P C V dimRank dimSizes lvlRank lvlSizes lvlTypes lvl2dim)
            (\<lambda>t. Inr (new (StorageObj P C V t) h))
      | kFromCOO \<Rightarrow>
          and_then (assert ndebug (ptr \<noteq> 0) ''Received nullptr for SparseTensorCOO object'')
            (\<lambda>_. and_then (as_COO V h ptr)
            (\<lambda>c. and_then (newFromCOO lib P C V dimRank dimSizes lvlRank lvlTypes lvl2dim c)
            (\<lambda>(t, c'). Inr (new (StorageObj P C V t) (store ptr (COOObj V c') h)))))
      | kSparseToSparse \<Rightarrow>
          and_then (assert ndebug (ptr \<noteq> 0) ''Received nullptr for SparseTensorStorage object'')
            (\<lambda>_. and_then (as_StorageBase h ptr)
            (\<lambda>tensor. and_then
               (newFromSparseTensor lib P C V dimRank dimSizes lvlRank lvlSizes lvlTypes lvl2dim
                  dimRank dim2lvl tensor)
            (\<lambda>t. Inr (new (StorageObj P C V t) h))))
      | kEmptyCOO \<Rightarrow>
          and_then (SparseTensorCOO_new lvlRank lvlSizes)
            (\<lambda>c. Inr (new (COOObj V c) h))
      | kToCOO \<Rightarrow>
          and_then (assert ndebug (ptr \<noteq> 0) ''Received nullptr for SparseTensorStorage object'')
            (\<lambda>_. and_then (as_Storage P C V h ptr)
            (\<lambda>tensor. and_then (toCOO lib P C V tensor lvlRank lvlSizes dimRank dim2lvl)
            (\<lambda>c. Inr (new (COOObj V c) h))))
      | kToIterator \<Rightarrow>
          and_then (assert ndebug (ptr \<noteq> 0) ''Received nullptr for SparseTensorStorage object'')
            (\<lambda>_. and_then (as_Storage P C V h ptr)
            (\<lambda>tensor. and_then (toCOO lib P C V tensor lvlRank lvlSizes dimRank dim2lvl)
            (\<lambda>c. case new (COOObj V c) h of
                    (a, h1) \<Rightarrow> Inr (new (IteratorObj V (SparseTensorIterator_new a c)) h1))))
      | kPack \<Rightarrow>
          and_then (assert ndebug (ptr \<noteq> 0) ''Received nullptr for SparseTensorStorage object'')
            (\<lambda>_. and_then (as_Buffers h ptr)
            (\<lambda>buffers. and_then
               (packFromLvlBuffers lib P C V dimRank dimSizes lvlRank lvlSizes lvlTypes lvl2dim
                  dimRank dim2lvl buffers)
            (\<lambda>t. Inr (new (StorageObj P C V t) h))))
      | kActionOutOfRange \<Rightarrow>
          MLIR_SPARSETENSOR_FATAL ''unknown action: %d\<newline>'' [ArgAction action])"

text \<open>The Swiss-army-knife for sparse tensor creation.\<close>

definition mlir_ciface_newSparseTensor ::
  "('s, 'r, 'v) library \<Rightarrow> bool \<Rightarrow> ('s, 'r, 'v) heap \<Rightarrow>
   index_type StridedMemRefType1 option \<Rightarrow> index_type StridedMemRefType1 option \<Rightarrow>
   DimLevelType StridedMemRefType1 option \<Rightarrow> index_type StridedMemRefType1 option \<Rightarrow>
   index_type StridedMemRefType1 option \<Rightarrow> OverheadType \<Rightarrow> OverheadType \<Rightarrow> PrimaryType \<Rightarrow>
   Action \<Rightarrow> addr \<Rightarrow> error + (addr \<times> ('s, 'r, 'v) heap)" where
  "mlir_ciface_newSparseTensor lib ndebug h dimSizesRef lvlSizesRef lvlTypesRef dim2lvlRef
       lvl2dimRef posTp crdTp valTp action ptr =
     and_then (ASSERT_NO_STRIDE ndebug dimSizesRef) (\<lambda>_.
     and_then (ASSERT_NO_STRIDE ndebug lvlSizesRef) (\<lambda>_.
     and_then (ASSERT_NO_STRIDE ndebug lvlTypesRef) (\<lambda>_.
     and_then (ASSERT_NO_STRIDE ndebug dim2lvlRef) (\<lambda>_.
     and_then (ASSERT_NO_STRIDE ndebug lvl2dimRef) (\<lambda>_.
     and_then (MEMREF_GET_USIZE ndebug dimSizesRef) (\<lambda>dimRank.
     and_then (MEMREF_GET_USIZE ndebug lvlSizesRef) (\<lambda>lvlRank.
     and_then (ASSERT_USIZE_EQ ndebug lvlTypesRef lvlRank) (\<lambda>_.
     and_then (ASSERT_USIZE_EQ ndebug dim2lvlRef dimRank) (\<lambda>_.
     and_then (ASSERT_USIZE_EQ ndebug lvl2dimRef lvlRank) (\<lambda>_.
     and_then (MEMREF_GET_PAYLOAD dimSizesRef) (\<lambda>dimSizes.
     and_then (MEMREF_GET_PAYLOAD lvlSizesRef) (\<lambda>lvlSizes.
     and_then (MEMREF_GET_PAYLOAD lvlTypesRef) (\<lambda>lvlTypes.
     and_then (MEMREF_GET_PAYLOAD dim2lvlRef) (\<lambda>dim2lvl.
     and_then (MEMREF_GET_PAYLOAD lvl2dimRef) (\<lambda>lvl2dim.
       let posTp = rewrite_kIndex posTp;
           crdTp = rewrite_kIndex crdTp
       in case first_match newSparseTensor_cases posTp crdTp valTp of
            Some (P, C, V) \<Rightarrow>
              CASE lib ndebug h dimRank dimSizes lvlRank lvlSizes lvlTypes dim2lvl lvl2dim
                action ptr P C V
          | None \<Rightarrow>
              MLIR_SPARSETENSOR_FATAL
                ''unsupported combination of types: <P=%d, C=%d, V=%d>\<newline>''
                [ArgOverhead posTp, ArgOverhead crdTp, ArgPrimary valTp])))))))))))))))"

definition mlir_ciface_newSparseTensorFromReader ::
  "('s, 'r, 'v) library \<Rightarrow> bool \<Rightarrow> ('s, 'r, 'v) heap \<Rightarrow> addr \<Rightarrow>
   index_type StridedMemRefType1 option \<Rightarrow> DimLevelType StridedMemRefType1 option \<Rightarrow>
   index_type StridedMemRefType1 option \<Rightarrow> index_type StridedMemRefType1 option \<Rightarrow>
   OverheadType \<Rightarrow> OverheadType \<Rightarrow> PrimaryType \<Rightarrow> error + (addr \<times> ('s, 'r, 'v) heap)" where
  "mlir_ciface_newSparseTensorFromReader lib ndebug h p lvlSizesRef lvlTypesRef dim2lvlRef
       lvl2dimRef posTp crdTp valTp =
     and_then (assert ndebug (p \<noteq> 0) ''p'') (\<lambda>_.
     and_then (ASSERT_NO_STRIDE ndebug lvlSizesRef) (\<lambda>_.
     and_then (ASSERT_NO_STRIDE ndebug lvlTypesRef) (\<lambda>_.
     and_then (ASSERT_NO_STRIDE ndebug dim2lvlRef) (\<lambda>_.
     and_then (ASSERT_NO_STRIDE ndebug lvl2dimRef) (\<lambda>_.
     and_then (as_Reader h p) (\<lambda>reader.
     let dimRank = getRank lib reader in
     and_then (MEMREF_GET_USIZE ndebug lvlSizesRef) (\<lambda>lvlRank.
     and_then (ASSERT_USIZE_EQ ndebug lvlTypesRef lvlRank) (\<lambda>_.
     and_then (ASSERT_USIZE_EQ ndebug dim2lvlRef dimRank) (\<lambda>_.
     and_then (ASSERT_USIZE_EQ ndebug lvl2dimRef lvlRank) (\<lambda>_.
     and_then (MEMREF_GET_PAYLOAD lvlSizesRef) (\<lambda>lvlSizes.
     and_then (MEMREF_GET_PAYLOAD lvlTypesRef) (\<lambda>lvlTypes.
     and_then (MEMREF_GET_PAYLOAD dim2lvlRef) (\<lambda>dim2lvl.
     and_then (MEMREF_GET_PAYLOAD lvl2dimRef) (\<lambda>lvl2dim.
       let posTp = rewrite_kIndex posTp;
           crdTp = rewrite_kIndex crdTp
       in case first_match newSparseTensorFromReader_cases posTp crdTp valTp of
            Some (P, C, V) \<Rightarrow>
              and_then (readSparseTensor lib P C V reader lvlRank lvlSizes lvlTypes dim2lvl lvl2dim)
                (\<lambda>(t, reader'). Inr (new (StorageObj P C V t) (store p (ReaderObj reader') h)))
          | None \<Rightarrow>
              MLIR_SPARSETENSOR_FATAL
                ''unsupported combination of types: <P=%d, C=%d, V=%d>\<newline>''
                [ArgOverhead posTp, ArgOverhead crdTp, ArgPrimary valTp]))))))))))))))"

section \<open>The coordinate iterator\<close>

text \<open>
  \<open>SparseTensorIterator<V>::getNext\<close>: the element at \<open>it\<close>, and \<open>it\<close> advanced, while
  \<open>it < end\<close>; the null pointer (\<open>None\<close>) otherwise.
\<close>

definition SparseTensorIterator_getNext ::
  "value_ctype \<Rightarrow> ('s, 'r, 'v) heap \<Rightarrow> addr \<Rightarrow> error + ('v Element option \<times> ('s, 'r, 'v) heap)" where
  "SparseTensorIterator_getNext V h iter =
     and_then (as_Iterator V h iter) (\<lambda>i.
       if iter_it i < iter_end i
       then and_then (as_COO V h (iter_coo i)) (\<lambda>c.
            and_then (read_at (coo_elements c) (iter_it i)) (\<lambda>e.
              Inr (Some e, store iter (IteratorObj V (i\<lparr>iter_it := Suc (iter_it i)\<rparr>)) h)))
       else Inr (None, h))"

text \<open>The memory behind a descriptor after the array at \<open>data + offset\<close> has become \<open>p\<close>.\<close>

definition with_payload ::
  "('a, 'b) StridedMemRefType0_scheme \<Rightarrow> 'a list \<Rightarrow> ('a, 'b) StridedMemRefType0_scheme" where
  "with_payload m p = m\<lparr>data := take (offset m) (data m) @ p\<rparr>"

definition mlir_ciface_getNext ::
  "value_ctype \<Rightarrow> bool \<Rightarrow> ('s, 'r, 'v) heap \<Rightarrow> addr \<Rightarrow>
   index_type StridedMemRefType1 option \<Rightarrow> 'v StridedMemRefType0 option \<Rightarrow>
   error + (bool \<times> ('s, 'r, 'v) heap \<times> index_type StridedMemRefType1 option
            \<times> 'v StridedMemRefType0 option)" where
  "mlir_ciface_getNext V ndebug h iter cref vref =
     and_then (assert ndebug (iter \<noteq> 0 \<and> vref \<noteq> None) ''iter &&vref'') (\<lambda>_.
     and_then (ASSERT_NO_STRIDE ndebug cref) (\<lambda>_.
     and_then (MEMREF_GET_PAYLOAD cref) (\<lambda>coords.
     and_then (MEMREF_GET_PAYLOAD vref) (\<lambda>value.
     and_then (MEMREF_GET_USIZE ndebug cref) (\<lambda>rank.
     and_then (SparseTensorIterator_getNext V h iter) (\<lambda>(elem, h').
       case elem of
         None \<Rightarrow> Inr (False, h', cref, vref)
       | Some e \<Rightarrow>
           and_then (for_loop [0..<rank]
                       (\<lambda>d coords. and_then (read_at (elem_coords e) d) (write_at coords d))
                       coords) (\<lambda>coords.
           and_then (write_at value 0 (elem_value e)) (\<lambda>value.
             Inr (True, h', map_option (\<lambda>m. with_payload m coords) cref,
                  map_option (\<lambda>m. with_payload m value) vref)))))))))"

text \<open>
  \<open>delSparseTensorIterator\<close>: \<open>delete\<close> of the iterator, whose destructor deletes the
  coordinate list it owns.  Deleting a null pointer does nothing.
\<close>

definition delSparseTensorIterator ::
  "value_ctype \<Rightarrow> ('s, 'r, 'v) heap \<Rightarrow> addr \<Rightarrow> error + ('s, 'r, 'v) heap" where
  "delSparseTensorIterator V h iter =
     (if iter = 0 then Inr h
      else and_then (as_Iterator V h iter) (\<lambda>i.
           and_then (if iter_coo i = 0 then Inr h
                     else and_then (as_COO V h (iter_coo i)) (\<lambda>_. Inr (delete (iter_coo i) h)))
             (\<lambda>h'. Inr (delete iter h'))))"

section \<open>Adding an element to a coordinate list\<close>

definition mlir_ciface_addElt ::
  "value_ctype \<Rightarrow> bool \<Rightarrow> ('s, 'r, 'v) heap \<Rightarrow> addr \<Rightarrow> 'v StridedMemRefType0 option \<Rightarrow>
   index_type StridedMemRefType1 option \<Rightarrow> index_type StridedMemRefType1 option \<Rightarrow>
   error + (addr \<times> ('s, 'r, 'v) heap)" where
  "mlir_ciface_addElt V ndebug h lvlCOO vref dimCoordsRef dim2lvlRef =
     and_then (assert ndebug (lvlCOO \<noteq> 0 \<and> vref \<noteq> None) ''lvlCOO &&vref'') (\<lambda>_.
     and_then (ASSERT_NO_STRIDE ndebug dimCoordsRef) (\<lambda>_.
     and_then (ASSERT_NO_STRIDE ndebug dim2lvlRef) (\<lambda>_.
     and_then (MEMREF_GET_USIZE ndebug dimCoordsRef) (\<lambda>rank.
     and_then (ASSERT_USIZE_EQ ndebug dim2lvlRef rank) (\<lambda>_.
     and_then (MEMREF_GET_PAYLOAD dimCoordsRef) (\<lambda>dimCoords.
     and_then (MEMREF_GET_PAYLOAD dim2lvlRef) (\<lambda>dim2lvl.
     and_then (for_loop [0..<rank]
                 (\<lambda>d lvlCoords.
                    and_then (read_at dim2lvl d) (\<lambda>l.
                    and_then (read_at dimCoords d) (\<lambda>x.
                      write_at lvlCoords (unat l) x)))
                 (replicate rank 0)) (\<lambda>lvlCoords.
     and_then (MEMREF_GET_PAYLOAD vref) (\<lambda>value.
     and_then (read_at value 0) (\<lambda>v.
     and_then (as_COO V h lvlCOO) (\<lambda>c.
       Inr (lvlCOO, store lvlCOO (COOObj V (add c lvlCoords v)) h))))))))))))"

section \<open>The writer of the extended FROSTT format\<close>

text \<open>
  The decimal form of an unsigned number, as \<open>operator<<\<close> and the \<open>PRIu64\<close> conversion
  of \<open>snprintf\<close> print it.
\<close>

definition digit :: "nat \<Rightarrow> char" where
  "digit d = ''0123456789'' ! d"

fun decimal :: "nat \<Rightarrow> string" where
  "decimal n = (if n < 10 then [digit n] else decimal (n div 10) @ [digit (n mod 10)])"

declare decimal.simps [simp del]

definition put :: "string \<Rightarrow> ostream \<Rightarrow> ostream" where
  "put s w = (if good w then w\<lparr>pending := pending w @ s\<rparr> else w)"

text \<open>
  \<open>flush\<close> hands the pending characters to the device.  When the device takes them all,
  none is pending any more.  When it takes only some of them, the stream is no longer
  good (\<open>badbit\<close>) and the others stay pending.  A stream that is not good writes
  nothing.  The buffer of a stream is taken to hold whatever is inserted between two
  flushes, so that characters reach the device at a flush only; \<open>std::endl\<close> inserts the
  end of the line and flushes.
\<close>

definition deliver :: "string \<Rightarrow> string \<Rightarrow> ('s, 'r, 'v) heap \<Rightarrow> ('s, 'r, 'v) heap" where
  "deliver t s h = h\<lparr>written := (written h)(t := written h t @ s)\<rparr>"

definition device_takes :: "('s, 'r, 'v) heap \<Rightarrow> string \<Rightarrow> string \<Rightarrow> bool" where
  "device_takes h t c \<longleftrightarrow> length c \<le> takes h t (written h t) c"

definition flush :: "ostream \<Rightarrow> ('s, 'r, 'v) heap \<Rightarrow> ostream \<times> ('s, 'r, 'v) heap" where
  "flush w h =
     (if good w
      then if device_takes h (target w) (pending w)
           then (w\<lparr>pending := []\<rparr>, deliver (target w) (pending w) h)
           else let n = takes h (target w) (written h (target w)) (pending w)
                in (w\<lparr>pending := drop n (pending w), good := False\<rparr>,
                    deliver (target w) (take n (pending w)) h)
      else (w, h))"

definition endl :: "ostream \<Rightarrow> ('s, 'r, 'v) heap \<Rightarrow> ostream \<times> ('s, 'r, 'v) heap" where
  "endl w h = flush (put ''\<newline>'' w) h"

text \<open>
  What \<open>operator<<\<close> prints for a value of the integer value types: a signed number in
  decimal for \<open>int64_t\<close>, \<open>int32_t\<close> and \<open>int16_t\<close>; for \<open>int8_t\<close>, which is a character
  type, the character with that code.  (The text of the floating-point and complex value
  types is a parameter \<open>fmt\<close> of the entry point below.)
\<close>

definition signed_decimal :: "int \<Rightarrow> string" where
  "signed_decimal i = (if i < 0 then CHR ''-'' # decimal (nat (- i)) else decimal (nat i))"


definition operator_out_int32_t :: "32 word \<Rightarrow> string" where
  "operator_out_int32_t v = signed_decimal (sint v)"

definition operator_out_int16_t :: "16 word \<Rightarrow> string" where
  "operator_out_int16_t v = signed_decimal (sint v)"


text \<open>
  \<open>createSparseTensorWriter\<close>: the standard output for the empty file name, a new file
  stream otherwise (\<open>open_ok\<close> tells whether the file system lets the file be opened;
  opening empties the file), and the comment line of the format.
\<close>

definition ofstream :: "(string \<Rightarrow> bool) \<Rightarrow> string \<Rightarrow> ('s, 'r, 'v) heap \<Rightarrow> addr \<times> ('s, 'r, 'v) heap" where
  "ofstream open_ok filename h =
     (if open_ok filename
      then new (OStreamObj \<lparr>pending = [], good = True, target = filename\<rparr>)
             (h\<lparr>written := (written h)(filename := [])\<rparr>)
      else new (OStreamObj \<lparr>pending = [], good = False, target = filename\<rparr>) h)"

definition createSparseTensorWriter ::
  "(string \<Rightarrow> bool) \<Rightarrow> ('s, 'r, 'v) heap \<Rightarrow> string \<Rightarrow> error + (addr \<times> ('s, 'r, 'v) heap)" where
  "createSparseTensorWriter open_ok h filename =
     (case (if filename = [] then (std_cout, h) else ofstream open_ok filename h) of
        (file, h') \<Rightarrow>
          and_then (as_Writer h' file) (\<lambda>w.
            Inr (file, store file (OStreamObj (put ''# extended FROSTT format\<newline>'' w)) h')))"

definition mlir_ciface_outSparseTensorWriterMetaData ::
  "bool \<Rightarrow> ('s, 'r, 'v) heap \<Rightarrow> addr \<Rightarrow> index_type \<Rightarrow> index_type \<Rightarrow>
   index_type StridedMemRefType1 option \<Rightarrow> error + ('s, 'r, 'v) heap" where
  "mlir_ciface_outSparseTensorWriterMetaData ndebug h p dimRank nse dimSizesRef =
     and_then (assert ndebug (p \<noteq> 0) ''p'') (\<lambda>_.
     and_then (ASSERT_NO_STRIDE ndebug dimSizesRef) (\<lambda>_.
     and_then (assert ndebug (dimRank \<noteq> 0) ''dimRank != 0'') (\<lambda>_.
     and_then (MEMREF_GET_PAYLOAD dimSizesRef) (\<lambda>dimSizes.
     and_then (as_Writer h p) (\<lambda>file.
     case endl (put (decimal (unat nse)) (put '' '' (put (decimal (unat dimRank)) file))) h of
       (file, h) \<Rightarrow>
     and_then (for_loop [0..<unat (dimRank - 1)]
                 (\<lambda>d file. and_then (read_at dimSizes d) (\<lambda>x.
                    Inr (put '' '' (put (decimal (unat x)) file))))
                 file) (\<lambda>file.
     and_then (read_at dimSizes (unat (dimRank - 1))) (\<lambda>x.
     case endl (put (decimal (unat x)) file) h of
       (file, h) \<Rightarrow> Inr (store p (OStreamObj file) h))))))))"

text \<open>
  \<open>_mlir_ciface_outSparseTensorWriterNext\<close> for a value type \<open>V\<close>; \<open>fmt\<close> is the text
  \<open>operator<<\<close> prints for a value of that type.
\<close>

definition mlir_ciface_outSparseTensorWriterNext ::
  "('a \<Rightarrow> string) \<Rightarrow> bool \<Rightarrow> ('s, 'r, 'v) heap \<Rightarrow> addr \<Rightarrow> index_type \<Rightarrow>
   index_type StridedMemRefType1 option \<Rightarrow> 'a StridedMemRefType0 option \<Rightarrow>
   error + ('s, 'r, 'v) heap" where
  "mlir_ciface_outSparseTensorWriterNext fmt ndebug h p dimRank dimCoordsRef vref =
     and_then (assert ndebug (p \<noteq> 0 \<and> vref \<noteq> None) ''p &&vref'') (\<lambda>_.
     and_then (ASSERT_NO_STRIDE ndebug dimCoordsRef) (\<lambda>_.
     and_then (MEMREF_GET_PAYLOAD dimCoordsRef) (\<lambda>dimCoords.
     and_then (as_Writer h p) (\<lambda>file.
     and_then (for_loop [0..<unat dimRank]
                 (\<lambda>d file. and_then (read_at dimCoords d) (\<lambda>x.
                    Inr (put '' '' (put (decimal (unat (x + 1))) file))))
                 file) (\<lambda>file.
     and_then (MEMREF_GET_PAYLOAD vref) (\<lambda>value.
     and_then (read_at value 0) (\<lambda>v.
     case endl (put (fmt v) file) h of
       (file, h) \<Rightarrow> Inr (store p (OStreamObj file) h))))))))"


definition mlir_ciface_outSparseTensorWriterNextI32 ::
  "bool \<Rightarrow> ('s, 'r, 'v) heap \<Rightarrow> addr \<Rightarrow> index_type \<Rightarrow>
   index_type StridedMemRefType1 option \<Rightarrow> 32 word StridedMemRefType0 option \<Rightarrow>
   error + ('s, 'r, 'v) heap" where
  "mlir_ciface_outSparseTensorWriterNextI32 =
     mlir_ciface_outSparseTensorWriterNext operator_out_int32_t"

definition mlir_ciface_outSparseTensorWriterNextI16 ::
  "bool \<Rightarrow> ('s, 'r, 'v) heap \<Rightarrow> addr \<Rightarrow> index_type \<Rightarrow>
   index_type StridedMemRefType1 option \<Rightarrow> 16 word StridedMemRefType0 option \<Rightarrow>
   error + ('s, 'r, 'v) heap" where
  "mlir_ciface_outSparseTensorWriterNextI16 =
     mlir_ciface_outSparseTensorWriterNext operator_out_int16_t"


text \<open>
  \<open>delSparseTensorWriter\<close>: the flush, the assertion on the state the flush has left, and
  the \<open>delete\<close> of a stream that is not the standard output.  (The destructor of a file
  stream closes the file; after the flush nothing is pending that the device takes, so
  the close adds nothing to what the device has received.)
\<close>

definition delSparseTensorWriter ::
  "bool \<Rightarrow> ('s, 'r, 'v) heap \<Rightarrow> addr \<Rightarrow> error + ('s, 'r, 'v) heap" where
  "delSparseTensorWriter ndebug h p =
     and_then (as_Writer h p) (\<lambda>file.
     case flush file h of
       (file, h) \<Rightarrow>
         and_then (assert ndebug (good file) ''file->good()'') (\<lambda>_.
           Inr (if p \<noteq> std_cout then delete p h else store p (OStreamObj file) h)))"

section \<open>The file name of a tensor\<close>

text \<open>
  \<open>snprintf\<close> into a buffer of \<open>n\<close> bytes keeps at most \<open>n - 1\<close> characters of the text;
  \<open>getenv\<close> reads the environment \<open>env\<close>.
\<close>

definition BUF_SIZE :: nat where
  "BUF_SIZE = 80"

definition snprintf :: "nat \<Rightarrow> string \<Rightarrow> string" where
  "snprintf n s = take (n - 1) s"

definition getTensorFilename :: "(string \<Rightarrow> string option) \<Rightarrow> index_type \<Rightarrow> error + string" where
  "getTensorFilename getenv id' =
     (let var = snprintf BUF_SIZE (''TENSOR'' @ decimal (unat id')) in
      case getenv var of
        None \<Rightarrow> MLIR_SPARSETENSOR_FATAL ''Environment variable %s is not set\<newline>'' [ArgString var]
      | Some env \<Rightarrow> Inr env)"

section \<open>Notions used in the statements\<close>

text \<open>The three tags a \<open>CASE\<close> line compares: a triple with a compiled specialization.\<close>

fun tags_of :: "case_entry \<Rightarrow> OverheadType \<times> OverheadType \<times> PrimaryType" where
  "tags_of (p, c, v, P, C, V) = (p, c, v)"

text \<open>
  The contract of a rank-1 descriptor handed across the boundary: a descriptor is there,
  it has unit stride and \<open>n\<close> elements (a size that fits the signed 64-bit field), and the
  array behind it holds them.
\<close>

definition descriptor_ok :: "('a, 'b) StridedMemRefType1_scheme option \<Rightarrow> nat \<Rightarrow> bool" where
  "descriptor_ok MEMREF n =
     (case MEMREF of
        None \<Rightarrow> False
      | Some m \<Rightarrow> strides m = 1 \<and> sizes m = int n \<and> n < 2 ^ 63 \<and> offset m + n \<le> length (data m))"

text \<open>A rank-0 descriptor that points at one value.\<close>

definition value_slot_ok :: "'v StridedMemRefType0 option \<Rightarrow> bool" where
  "value_slot_ok vref = (case vref of None \<Rightarrow> False | Some m \<Rightarrow> offset m < length (data m))"

text \<open>
  What a rank-1 descriptor describes (for the coordinate slot: what the caller reads in
  it), and what the caller reads in the value slot.
\<close>

definition contents :: "('a, 'b) StridedMemRefType1_scheme option \<Rightarrow> 'a list" where
  "contents MEMREF =
     (case MEMREF of None \<Rightarrow> [] | Some m \<Rightarrow> take (nat (sizes m)) (drop (offset m) (data m)))"

text \<open>A dimension-to-level mapping of rank \<open>r\<close> that is a permutation of \<open>0..r-1\<close>.\<close>

definition is_permutation :: "index_type list \<Rightarrow> bool" where
  "is_permutation p \<longleftrightarrow> distinct (map unat p) \<and> set (map unat p) = {0..<length p}"

definition value_slot :: "'v StridedMemRefType0 option \<Rightarrow> 'v list" where
  "value_slot vref = (case vref of None \<Rightarrow> [] | Some m \<Rightarrow> take 1 (drop (offset m) (data m)))"

text \<open>
  A caller that calls the get-next entry point \<open>n\<close> times in a row on the same iterator and
  the same output slots, and notes after each call the flag and what the slots hold.
\<close>

fun getNext_calls ::
  "value_ctype \<Rightarrow> bool \<Rightarrow> nat \<Rightarrow> ('s, 'r, 'v) heap \<Rightarrow> addr \<Rightarrow>
   index_type StridedMemRefType1 option \<Rightarrow> 'v StridedMemRefType0 option \<Rightarrow>
   error + (bool \<times> index_type list \<times> 'v list) list" where
  "getNext_calls V ndebug 0 h iter cref vref = Inr []"
| "getNext_calls V ndebug (Suc n) h iter cref vref =
     and_then (mlir_ciface_getNext V ndebug h iter cref vref) (\<lambda>(flag, h', cref', vref').
     and_then (getNext_calls V ndebug n h' iter cref' vref') (\<lambda>rest.
       Inr ((flag, contents cref', value_slot vref') # rest)))"

text \<open>
  The iterator at address \<open>iter\<close> owns the coordinate list \<open>c\<close> at address \<open>a\<close> and has
  handed out its first \<open>k\<close> elements.
\<close>

definition iterator_at ::
  "('s, 'r, 'v) heap \<Rightarrow> value_ctype \<Rightarrow> addr \<Rightarrow> addr \<Rightarrow> 'v SparseTensorCOO \<Rightarrow> nat \<Rightarrow> bool" where
  "iterator_at h V iter a c k \<longleftrightarrow>
     iter \<noteq> 0 \<and> iter \<noteq> a \<and> cells h a = Some (COOObj V c) \<and>
     cells h iter =
       Some (IteratorObj V \<lparr>iter_coo = a, iter_it = k, iter_end = length (coo_elements c)\<rparr>)"

text \<open>Words on one line, separated by single spaces.\<close>

fun unwords :: "string list \<Rightarrow> string" where
  "unwords [] = []"
| "unwords [w] = w"
| "unwords (w # v # ws) = w @ '' '' @ unwords (v # ws)"

text \<open>The two lines of the header, before their ends.\<close>

definition header_first_line :: "index_type \<Rightarrow> index_type \<Rightarrow> string" where
  "header_first_line dimRank nse = decimal (unat dimRank) @ '' '' @ decimal (unat nse)"

definition header_second_line :: "index_type list \<Rightarrow> string" where
  "header_second_line dimSizes = unwords (map (\<lambda>x. decimal (unat x)) dimSizes)"

text \<open>The number a string of decimal digits denotes.\<close>

definition read_decimal :: "string \<Rightarrow> nat" where
  "read_decimal s = foldl (\<lambda>a c. 10 * a + (of_char c - 48)) 0 s"


text \<open>
  A failure before the dispatcher's own diagnostic: a failed assertion, or undefined
  behaviour (of which nothing more is said).
\<close>

definition stopped_early :: "error \<Rightarrow> bool" where
  "stopped_early e \<longleftrightarrow>
     (case e of Fatal f as \<Rightarrow> False | AssertionFailed msg \<Rightarrow> True | UndefinedBehaviour \<Rightarrow> True)"

section \<open>Example data\<close>

text \<open>
  A stand-in for the storage library, for the closed examples: a storage instance is the
  list of its elements.
\<close>

definition example_library :: "(int SparseTensorCOO, unit, int) library" where
  "example_library =
     \<lparr>newEmpty = (\<lambda>P C V dimRank dimSizes lvlRank lvlSizes lvlTypes lvl2dim.
                    SparseTensorCOO_new lvlRank lvlSizes),
      newFromCOO = (\<lambda>P C V dimRank dimSizes lvlRank lvlTypes lvl2dim c. Inr (c, c)),
      newFromSparseTensor = (\<lambda>P C V dimRank dimSizes lvlRank lvlSizes lvlTypes lvl2dim
                                dimRank' dim2lvl t. Inr t),
      toCOO = (\<lambda>P C V t lvlRank lvlSizes dimRank dim2lvl. Inr t),
      packFromLvlBuffers = (\<lambda>P C V dimRank dimSizes lvlRank lvlSizes lvlTypes lvl2dim
                               dimRank' dim2lvl buffers.
                               SparseTensorCOO_new lvlRank lvlSizes),
      getRank = (\<lambda>r. 2),
      readSparseTensor = (\<lambda>P C V r lvlRank lvlSizes lvlTypes dim2lvl lvl2dim.
                            and_then (SparseTensorCOO_new lvlRank lvlSizes) (\<lambda>t. Inr (t, r)))\<rparr>"

text \<open>The coordinate list of the 3 by 3 example: 5 at (0,1) and 7 at (1,2).\<close>

definition example_coo :: "int SparseTensorCOO" where
  "example_coo =
     \<lparr>coo_dimSizes = [3, 3],
      coo_elements = [\<lparr>elem_coords = [0, 1], elem_value = 5\<rparr>,
                      \<lparr>elem_coords = [1, 2], elem_value = 7\<rparr>]\<rparr>"

text \<open>
  A store with the standard output, the example list at 2, an iterator over it at 3, a
  storage instance at 4, a reader at 5, a file stream that failed at 6, a file stream in
  use at 7, and at 8 a stream in use whose device is full (it takes no character).
\<close>

definition example_heap :: "(int SparseTensorCOO, unit, int) heap" where
  "example_heap =
     \<lparr>cells = (\<lambda>a. if a = 1 then Some (OStreamObj \<lparr>pending = [], good = True, target = []\<rparr>)
               else if a = 2 then Some (COOObj double example_coo)
               else if a = 3 then Some (IteratorObj double (SparseTensorIterator_new 2 example_coo))
               else if a = 4 then Some (StorageObj uint64_t uint64_t double example_coo)
               else if a = 5 then Some (ReaderObj ())
               else if a = 6 then Some (OStreamObj \<lparr>pending = ''# x'', good = False, target = ''closed.tns''\<rparr>)
               else if a = 7 then Some (OStreamObj \<lparr>pending = ''# x'', good = True, target = ''out.tns''\<rparr>)
               else if a = 8 then Some (OStreamObj \<lparr>pending = ''# x'', good = True, target = ''/dev/full''\<rparr>)
               else None),
      brk = 9,
      written = (\<lambda>t. []),
      takes = (\<lambda>t s c. if t = ''/dev/full'' then 0 else length c)\<rparr>"

definition example_sizes :: "index_type StridedMemRefType1" where
  "example_sizes = \<lparr>data = [3, 3], offset = 0, sizes = 2, strides = 1\<rparr>"

definition example_types :: "DimLevelType StridedMemRefType1" where
  "example_types = \<lparr>data = [4, 8], offset = 0, sizes = 2, strides = 1\<rparr>"

definition example_perm :: "index_type StridedMemRefType1" where
  "example_perm = \<lparr>data = [1, 0], offset = 0, sizes = 2, strides = 1\<rparr>"

definition example_cref :: "index_type StridedMemRefType1" where
  "example_cref = \<lparr>data = [9, 0, 0], offset = 1, sizes = 2, strides = 1\<rparr>"

definition example_vref :: "int StridedMemRefType0" where
  "example_vref = \<lparr>data = [0], offset = 0\<rparr>"

text \<open>The same store after the iterator at 3 has handed out both elements.\<close>

definition example_heap_exhausted :: "(int SparseTensorCOO, unit, int) heap" where
  "example_heap_exhausted =
     store 3 (IteratorObj double \<lparr>iter_coo = 2, iter_it = 2, iter_end = 2\<rparr>) example_heap"

definition example_dimCoords :: "index_type StridedMemRefType1" where
  "example_dimCoords = \<lparr>data = [2, 1], offset = 0, sizes = 2, strides = 1\<rparr>"

definition example_value :: "int StridedMemRefType0" where
  "example_value = \<lparr>data = [9], offset = 0\<rparr>"

text \<open>
  A store whose only object is the standard output stream, with nothing written and
  devices that take every write.
\<close>

definition initial_heap :: "(int SparseTensorCOO, unit, int) heap" where
  "initial_heap =
     \<lparr>cells = (\<lambda>a. if a = std_cout
                    then Some (OStreamObj \<lparr>pending = [], good = True, target = []\<rparr>) else None),
      brk = 2,
      written = (\<lambda>t. []),
      takes = (\<lambda>t s c. length c)\<rparr>"




text \<open>An environment in which only \<open>TENSOR7\<close> is set.\<close>

definition example_env :: "string \<Rightarrow> string option" where
  "example_env var = (if var = ''TENSOR7'' then Some ''/data/wide.tns'' else None)"

section \<open>Basic facts about the building blocks\<close>

lemma and_then_Inr_iff: "and_then m f = Inr r \<longleftrightarrow> (\<exists>x. m = Inr x \<and> f x = Inr r)"
  by (cases m) (simp_all add: and_then_def)

lemma and_then_Inr [simp]: "and_then (Inr x) f = f x"
  by (simp add: and_then_def)

lemma and_then_Inl [simp]: "and_then (Inl e) f = Inl e"
  by (simp add: and_then_def)

lemma for_loop_append:
  "for_loop (xs @ ys) body s = and_then (for_loop xs body s) (for_loop ys body)"
  by (induction xs arbitrary: s) (auto simp: and_then_def split: sum.splits)

lemma first_match_None_iff:
  "first_match cs posTp crdTp valTp = None \<longleftrightarrow> (posTp, crdTp, valTp) \<notin> tags_of ` set cs"
  by (induction cs posTp crdTp valTp rule: first_match.induct) auto

lemma ASSERT_NO_STRIDE_ok:
  "descriptor_ok MEMREF n \<Longrightarrow> ASSERT_NO_STRIDE ndebug MEMREF = Inr ()"
  by (auto simp: descriptor_ok_def ASSERT_NO_STRIDE_def assert_def split: option.splits)

lemma MEMREF_GET_USIZE_ok:
  "descriptor_ok MEMREF n \<Longrightarrow> MEMREF_GET_USIZE ndebug MEMREF = Inr n"
  by (auto simp: descriptor_ok_def MEMREF_GET_USIZE_def deref_def checkOverflowCast_def assert_def
      split: option.splits)

lemma ASSERT_USIZE_EQ_ok:
  "descriptor_ok MEMREF n \<Longrightarrow> ASSERT_USIZE_EQ ndebug MEMREF n = Inr ()"
  by (simp add: ASSERT_USIZE_EQ_def MEMREF_GET_USIZE_ok assert_def)

lemma MEMREF_GET_PAYLOAD_Some [simp]:
  "MEMREF_GET_PAYLOAD (Some m) = Inr (drop (offset m) (data m))"
  by (simp add: MEMREF_GET_PAYLOAD_def deref_def)

lemma descriptor_ok_Some: "descriptor_ok MEMREF n \<Longrightarrow> \<exists>m. MEMREF = Some m"
  by (cases MEMREF) (simp_all add: descriptor_ok_def)

lemma and_then_Inl_iff:
  "and_then m f = Inl e \<longleftrightarrow> m = Inl e \<or> (\<exists>x. m = Inr x \<and> f x = Inl e)"
  by (cases m) (simp_all add: and_then_def)

lemma assert_stopped: "assert ndebug c msg = Inl e \<Longrightarrow> stopped_early e"
  by (auto simp: assert_def stopped_early_def split: if_splits)

lemma deref_stopped: "deref p = Inl e \<Longrightarrow> stopped_early e"
  by (auto simp: deref_def stopped_early_def split: option.splits)

lemma ASSERT_NO_STRIDE_stopped: "ASSERT_NO_STRIDE ndebug M = Inl e \<Longrightarrow> stopped_early e"
  by (auto simp: ASSERT_NO_STRIDE_def stopped_early_def dest: assert_stopped split: if_splits option.splits)

lemma MEMREF_GET_USIZE_stopped: "MEMREF_GET_USIZE ndebug M = Inl e \<Longrightarrow> stopped_early e"
  by (auto simp: MEMREF_GET_USIZE_def checkOverflowCast_def and_then_Inl_iff
      dest: assert_stopped deref_stopped)

lemma ASSERT_USIZE_EQ_stopped: "ASSERT_USIZE_EQ ndebug M n = Inl e \<Longrightarrow> stopped_early e"
  by (auto simp: ASSERT_USIZE_EQ_def and_then_Inl_iff
      dest: assert_stopped MEMREF_GET_USIZE_stopped split: if_splits)

lemma MEMREF_GET_PAYLOAD_stopped: "MEMREF_GET_PAYLOAD M = Inl e \<Longrightarrow> stopped_early e"
  by (auto simp: MEMREF_GET_PAYLOAD_def and_then_Inl_iff dest: deref_stopped)

section \<open>The dispatcher: unsupported triples and the index alias\<close>

text \<open>
  Claim C1.  When the triple of tags, after the index alias has been rewritten to the 64-bit
  width, is the triple of no \<open>CASE\<close> line, the dispatch entry point returns no handle,
  whatever the action, the action argument and the store are.  When the five descriptors
  keep the contract of the boundary, the call ends in the fatal diagnostic that names the
  three (rewritten) tags.  When they do not, the call ends in that diagnostic or before it,
  in a failed assertion of the prologue or in undefined behaviour.
\<close>

theorem unsupported_combination_is_fatal:
  assumes "(rewrite_kIndex posTp, rewrite_kIndex crdTp, valTp) \<notin> tags_of ` set newSparseTensor_cases"
  shows "(\<exists>e. mlir_ciface_newSparseTensor lib ndebug h dimSizesRef lvlSizesRef lvlTypesRef
                dim2lvlRef lvl2dimRef posTp crdTp valTp action ptr = Inl e \<and>
              (e = Fatal ''unsupported combination of types: <P=%d, C=%d, V=%d>\<newline>''
                     [ArgOverhead (rewrite_kIndex posTp), ArgOverhead (rewrite_kIndex crdTp),
                      ArgPrimary valTp] \<or> stopped_early e)) \<and>
         (descriptor_ok dimSizesRef dimRank \<and> descriptor_ok lvlSizesRef lvlRank \<and>
          descriptor_ok lvlTypesRef lvlRank \<and> descriptor_ok dim2lvlRef dimRank \<and>
          descriptor_ok lvl2dimRef lvlRank \<longrightarrow>
          mlir_ciface_newSparseTensor lib ndebug h dimSizesRef lvlSizesRef lvlTypesRef
                dim2lvlRef lvl2dimRef posTp crdTp valTp action ptr
            = Inl (Fatal ''unsupported combination of types: <P=%d, C=%d, V=%d>\<newline>''
                     [ArgOverhead (rewrite_kIndex posTp), ArgOverhead (rewrite_kIndex crdTp),
                      ArgPrimary valTp]))"
proof (intro conjI impI)
  have none: "first_match newSparseTensor_cases (rewrite_kIndex posTp) (rewrite_kIndex crdTp) valTp = None"
    using assms by (simp add: first_match_None_iff)
  show "\<exists>e. mlir_ciface_newSparseTensor lib ndebug h dimSizesRef lvlSizesRef lvlTypesRef
                dim2lvlRef lvl2dimRef posTp crdTp valTp action ptr = Inl e \<and>
              (e = Fatal ''unsupported combination of types: <P=%d, C=%d, V=%d>\<newline>''
                     [ArgOverhead (rewrite_kIndex posTp), ArgOverhead (rewrite_kIndex crdTp),
                      ArgPrimary valTp] \<or> stopped_early e)"
  proof (cases "mlir_ciface_newSparseTensor lib ndebug h dimSizesRef lvlSizesRef lvlTypesRef
                dim2lvlRef lvl2dimRef posTp crdTp valTp action ptr")
    case (Inr r)
    then show ?thesis
      by (auto simp: mlir_ciface_newSparseTensor_def and_then_Inr_iff Let_def none
          MLIR_SPARSETENSOR_FATAL_def)
  next
    case (Inl e)
    then have "e = Fatal ''unsupported combination of types: <P=%d, C=%d, V=%d>\<newline>''
                     [ArgOverhead (rewrite_kIndex posTp), ArgOverhead (rewrite_kIndex crdTp),
                      ArgPrimary valTp] \<or> stopped_early e"
      unfolding mlir_ciface_newSparseTensor_def and_then_Inl_iff Let_def none
      by (auto simp: MLIR_SPARSETENSOR_FATAL_def
          dest: ASSERT_NO_STRIDE_stopped MEMREF_GET_USIZE_stopped ASSERT_USIZE_EQ_stopped
            MEMREF_GET_PAYLOAD_stopped)
    with Inl show ?thesis by simp
  qed
next
  assume ok: "descriptor_ok dimSizesRef dimRank \<and> descriptor_ok lvlSizesRef lvlRank \<and>
          descriptor_ok lvlTypesRef lvlRank \<and> descriptor_ok dim2lvlRef dimRank \<and>
          descriptor_ok lvl2dimRef lvlRank"
  then obtain m1 m2 m3 m4 m5 where some:
    "dimSizesRef = Some m1" "lvlSizesRef = Some m2" "lvlTypesRef = Some m3"
    "dim2lvlRef = Some m4" "lvl2dimRef = Some m5"
    by (meson descriptor_ok_Some)
  have none: "first_match newSparseTensor_cases (rewrite_kIndex posTp) (rewrite_kIndex crdTp) valTp = None"
    using assms by (simp add: first_match_None_iff)
  have pre:
    "ASSERT_NO_STRIDE ndebug dimSizesRef = Inr ()" "ASSERT_NO_STRIDE ndebug lvlSizesRef = Inr ()"
    "ASSERT_NO_STRIDE ndebug lvlTypesRef = Inr ()" "ASSERT_NO_STRIDE ndebug dim2lvlRef = Inr ()"
    "ASSERT_NO_STRIDE ndebug lvl2dimRef = Inr ()"
    "MEMREF_GET_USIZE ndebug dimSizesRef = Inr dimRank"
    "MEMREF_GET_USIZE ndebug lvlSizesRef = Inr lvlRank"
    "ASSERT_USIZE_EQ ndebug lvlTypesRef lvlRank = Inr ()"
    "ASSERT_USIZE_EQ ndebug dim2lvlRef dimRank = Inr ()"
    "ASSERT_USIZE_EQ ndebug lvl2dimRef lvlRank = Inr ()"
    using ok by (auto simp add: MEMREF_GET_USIZE_ok ASSERT_USIZE_EQ_ok intro: ASSERT_NO_STRIDE_ok)
  show "mlir_ciface_newSparseTensor lib ndebug h dimSizesRef lvlSizesRef lvlTypesRef
                dim2lvlRef lvl2dimRef posTp crdTp valTp action ptr
            = Inl (Fatal ''unsupported combination of types: <P=%d, C=%d, V=%d>\<newline>''
                     [ArgOverhead (rewrite_kIndex posTp), ArgOverhead (rewrite_kIndex crdTp),
                      ArgPrimary valTp])"
    unfolding mlir_ciface_newSparseTensor_def
    by (simp add: pre none Let_def MLIR_SPARSETENSOR_FATAL_def) (simp add: some)
qed

theorem unsupported_combination_is_fatal_witness:
  "mlir_ciface_newSparseTensor example_library False example_heap (Some example_sizes)
     (Some example_sizes) (Some example_types) (Some example_perm) (Some example_perm)
     kU32 kIndex kC64 kToCOO 4
   = Inl (Fatal ''unsupported combination of types: <P=%d, C=%d, V=%d>\<newline>''
            [ArgOverhead kU32, ArgOverhead kU64, ArgPrimary kC64])"
proof -
  have unsupported:
    "(rewrite_kIndex kU32, rewrite_kIndex kIndex, kC64) \<notin> tags_of ` set newSparseTensor_cases"
    by (simp add: rewrite_kIndex_def newSparseTensor_cases_def CASE_SECSAME_def)
  have ok: "descriptor_ok (Some example_sizes) 2 \<and> descriptor_ok (Some example_sizes) 2 \<and>
      descriptor_ok (Some example_types) 2 \<and> descriptor_ok (Some example_perm) 2 \<and>
      descriptor_ok (Some example_perm) 2"
    by (simp add: descriptor_ok_def example_sizes_def example_types_def example_perm_def)
  from unsupported_combination_is_fatal [OF unsupported, THEN conjunct2, rule_format, OF ok]
  show ?thesis by (simp add: rewrite_kIndex_def)
qed

text \<open>
  Claim C2.  Asking for the index alias as position width, as coordinate width, or as
  both gives the very result of asking for the 64-bit unsigned width in those places: the
  same returned handle and store or the same failure, for every action, argument and
  store; and the same holds for the entry point that builds a tensor from a reader.
\<close>

theorem index_alias_is_u64:
  "mlir_ciface_newSparseTensor lib ndebug h dimSizesRef lvlSizesRef lvlTypesRef dim2lvlRef
       lvl2dimRef kIndex crdTp valTp action ptr
     = mlir_ciface_newSparseTensor lib ndebug h dimSizesRef lvlSizesRef lvlTypesRef dim2lvlRef
         lvl2dimRef kU64 crdTp valTp action ptr \<and>
   mlir_ciface_newSparseTensor lib ndebug h dimSizesRef lvlSizesRef lvlTypesRef dim2lvlRef
       lvl2dimRef posTp kIndex valTp action ptr
     = mlir_ciface_newSparseTensor lib ndebug h dimSizesRef lvlSizesRef lvlTypesRef dim2lvlRef
         lvl2dimRef posTp kU64 valTp action ptr \<and>
   mlir_ciface_newSparseTensor lib ndebug h dimSizesRef lvlSizesRef lvlTypesRef dim2lvlRef
       lvl2dimRef kIndex kIndex valTp action ptr
     = mlir_ciface_newSparseTensor lib ndebug h dimSizesRef lvlSizesRef lvlTypesRef dim2lvlRef
         lvl2dimRef kU64 kU64 valTp action ptr \<and>
   mlir_ciface_newSparseTensorFromReader lib ndebug h p lvlSizesRef lvlTypesRef dim2lvlRef
       lvl2dimRef kIndex crdTp valTp
     = mlir_ciface_newSparseTensorFromReader lib ndebug h p lvlSizesRef lvlTypesRef dim2lvlRef
         lvl2dimRef kU64 crdTp valTp \<and>
   mlir_ciface_newSparseTensorFromReader lib ndebug h p lvlSizesRef lvlTypesRef dim2lvlRef
       lvl2dimRef posTp kIndex valTp
     = mlir_ciface_newSparseTensorFromReader lib ndebug h p lvlSizesRef lvlTypesRef dim2lvlRef
         lvl2dimRef posTp kU64 valTp \<and>
   mlir_ciface_newSparseTensorFromReader lib ndebug h p lvlSizesRef lvlTypesRef dim2lvlRef
       lvl2dimRef kIndex kIndex valTp
     = mlir_ciface_newSparseTensorFromReader lib ndebug h p lvlSizesRef lvlTypesRef dim2lvlRef
         lvl2dimRef kU64 kU64 valTp"
proof -
  have same: "rewrite_kIndex kIndex = rewrite_kIndex kU64"
    by (simp add: rewrite_kIndex_def)
  show ?thesis
    unfolding mlir_ciface_newSparseTensor_def mlir_ciface_newSparseTensorFromReader_def same
    by simp
qed

section \<open>The iterator: enumeration, exhaustion and the output slots\<close>

text \<open>The loop that copies the coordinates of an element into the coordinate slot.\<close>

lemma copy_loop:
  "n \<le> length src \<Longrightarrow> n \<le> length dst \<Longrightarrow>
   for_loop [0..<n] (\<lambda>d coords. and_then (read_at src d) (write_at coords d)) dst
     = Inr (take n src @ drop n dst)"
proof (induction n)
  case 0
  then show ?case by simp
next
  case (Suc n)
  define body where "body = (\<lambda>d coords. and_then (read_at src d) (write_at coords d))"
  have IH: "for_loop [0..<n] body dst = Inr (take n src @ drop n dst)"
    using Suc by (simp add: body_def)
  have upd: "(take n src @ drop n dst)[n := src ! n] = take (Suc n) src @ drop (Suc n) dst"
    using Suc.prems
    by (simp add: take_Suc_conv_app_nth list_update_append Cons_nth_drop_Suc [symmetric])
  have step: "body n (take n src @ drop n dst) = Inr (take (Suc n) src @ drop (Suc n) dst)"
    using Suc.prems upd by (simp add: body_def read_at_def write_at_def)
  have "for_loop [0..<Suc n] body dst = and_then (for_loop [0..<n] body dst) (for_loop [n] body)"
    by (simp add: for_loop_append)
  then show ?case
    using IH step by (simp add: body_def)
qed

lemma getNext_stop:
  assumes "iterator_at h V iter a c k" "length (coo_elements c) \<le> k"
    and "descriptor_ok cref rank" "value_slot_ok vref"
  shows "mlir_ciface_getNext V ndebug h iter cref vref = Inr (False, h, cref, vref)"
proof -
  obtain cm vm where "cref = Some cm" "vref = Some vm"
    using assms(3,4) by (auto simp: descriptor_ok_def value_slot_ok_def split: option.splits)
  then show ?thesis
    using assms
    by (simp add: mlir_ciface_getNext_def assert_def ASSERT_NO_STRIDE_ok MEMREF_GET_USIZE_ok
        SparseTensorIterator_getNext_def as_Iterator_def iterator_at_def)
qed

lemma getNext_continue:
  assumes it: "iterator_at h V iter a c k" and k: "k < length (coo_elements c)"
    and cref: "descriptor_ok cref rank" and vref: "value_slot_ok vref"
    and len: "length (elem_coords (coo_elements c ! k)) = rank"
  shows "\<exists>h' cref' vref'.
           mlir_ciface_getNext V ndebug h iter cref vref = Inr (True, h', cref', vref') \<and>
           iterator_at h' V iter a c (Suc k) \<and> descriptor_ok cref' rank \<and> value_slot_ok vref' \<and>
           contents cref' = elem_coords (coo_elements c ! k) \<and>
           value_slot vref' = [elem_value (coo_elements c ! k)]"
proof -
  obtain cm vm where some: "cref = Some cm" "vref = Some vm"
    using cref vref by (auto simp: descriptor_ok_def value_slot_ok_def split: option.splits)
  define e where "e = coo_elements c ! k"
  define i where "i = \<lparr>iter_coo = a, iter_it = k, iter_end = length (coo_elements c)\<rparr>"
  define h' where "h' = store iter (IteratorObj V (i\<lparr>iter_it := Suc k\<rparr>)) h"
  define coords where "coords = drop (offset cm) (data cm)"
  define val where "val = drop (offset vm) (data vm)"
  have cm: "strides cm = 1" "sizes cm = int rank" "rank < 2 ^ 63" "offset cm + rank \<le> length (data cm)"
    using cref some by (simp_all add: descriptor_ok_def)
  have vm: "offset vm < length (data vm)"
    using vref some by (simp add: value_slot_ok_def)
  have next_elem: "SparseTensorIterator_getNext V h iter = Inr (Some e, h')"
    using it k
    by (simp add: SparseTensorIterator_getNext_def as_Iterator_def as_COO_def iterator_at_def
        read_at_def e_def h'_def i_def)
  have loop: "for_loop [0..<rank] (\<lambda>d coords. and_then (read_at (elem_coords e) d) (write_at coords d)) coords
      = Inr (elem_coords e @ drop rank coords)"
    using copy_loop [of rank "elem_coords e" coords] len cm by (simp add: e_def coords_def)
  have wr: "write_at val 0 (elem_value e) = Inr (val[0 := elem_value e])"
    using vm by (simp add: write_at_def val_def)
  define cref' where "cref' = Some (with_payload cm (elem_coords e @ drop rank coords))"
  define vref' where "vref' = Some (with_payload vm (val[0 := elem_value e]))"
  have call: "mlir_ciface_getNext V ndebug h iter cref vref = Inr (True, h', cref', vref')"
    using it cref next_elem loop wr
    by (simp add: mlir_ciface_getNext_def assert_def ASSERT_NO_STRIDE_ok MEMREF_GET_USIZE_ok
        some iterator_at_def coords_def [symmetric] val_def [symmetric] cref'_def vref'_def)
  have it': "iterator_at h' V iter a c (Suc k)"
    using it by (simp add: iterator_at_def h'_def store_def i_def)
  have c_ok: "descriptor_ok cref' rank"
    using cm len by (simp add: descriptor_ok_def cref'_def with_payload_def coords_def e_def)
  have v_ok: "value_slot_ok vref'"
    using vm by (simp add: value_slot_ok_def vref'_def with_payload_def val_def)
  have c_slot: "contents cref' = elem_coords e"
    using cm len by (simp add: contents_def cref'_def with_payload_def e_def)
  have "val \<noteq> []" using vm by (simp add: val_def)
  then have "take 1 (val[0 := elem_value e]) = [elem_value e]"
    by (cases val) simp_all
  then have v_slot: "value_slot vref' = [elem_value e]"
    using vm by (simp add: value_slot_def vref'_def with_payload_def)
  show ?thesis
    using call it' c_ok v_ok c_slot v_slot unfolding e_def by blast
qed


lemma getNext_calls_trace:
  assumes "iterator_at h V iter a c k" "k \<le> length (coo_elements c)"
    and "descriptor_ok cref rank" "value_slot_ok vref"
    and "\<forall>e \<in> set (coo_elements c). length (elem_coords e) = rank"
  shows "\<exists>tr. getNext_calls V ndebug n h iter cref vref = Inr tr \<and>
           map fst tr = replicate (min n (length (coo_elements c) - k)) True
                        @ replicate (n - (length (coo_elements c) - k)) False \<and>
           take (length (coo_elements c) - k) (map snd tr)
             = map (\<lambda>e. (elem_coords e, [elem_value e])) (take n (drop k (coo_elements c)))"
  using assms
proof (induction n arbitrary: h k cref vref)
  case 0
  then show ?case by simp
next
  case (Suc n)
  let ?els = "coo_elements c"
  show ?case
  proof (cases "k < length ?els")
    case True
    then have len: "length (elem_coords (?els ! k)) = rank"
      using Suc.prems(5) by simp
    obtain h' cref' vref' where
      call: "mlir_ciface_getNext V ndebug h iter cref vref = Inr (True, h', cref', vref')" and
      st: "iterator_at h' V iter a c (Suc k)" "descriptor_ok cref' rank" "value_slot_ok vref'" and
      out: "contents cref' = elem_coords (?els ! k)" "value_slot vref' = [elem_value (?els ! k)]"
      using getNext_continue [OF Suc.prems(1) True Suc.prems(3,4) len, of ndebug] by blast
    from True have "Suc k \<le> length ?els" by simp
    from Suc.IH [OF st(1) this st(2,3) Suc.prems(5)]
    obtain tr where
      tr: "getNext_calls V ndebug n h' iter cref' vref' = Inr tr"
        "map fst tr = replicate (min n (length ?els - Suc k)) True
                      @ replicate (n - (length ?els - Suc k)) False"
        "take (length ?els - Suc k) (map snd tr)
           = map (\<lambda>e. (elem_coords e, [elem_value e])) (take n (drop (Suc k) ?els))"
      by blast
    have d: "length ?els - k = Suc (length ?els - Suc k)"
      using True by simp
    have dr: "drop k ?els = ?els ! k # drop (Suc k) ?els"
      using True by (simp add: Cons_nth_drop_Suc)
    show ?thesis
      using call tr out by (simp add: d dr)
  next
    case False
    with Suc.prems(2) have k: "k = length ?els" by simp
    have call: "mlir_ciface_getNext V ndebug h iter cref vref = Inr (False, h, cref, vref)"
      using getNext_stop [OF Suc.prems(1) _ Suc.prems(3,4)] k by simp
    from Suc.IH [OF Suc.prems]
    obtain tr where
      tr: "getNext_calls V ndebug n h iter cref vref = Inr tr"
        "map fst tr = replicate (min n (length ?els - k)) True
                      @ replicate (n - (length ?els - k)) False"
      by blast
    show ?thesis
      using call tr by (simp add: k)
  qed
qed

text \<open>
  Claim C3.  Take an iterator freshly wrapped around a coordinate list of \<open>N\<close> elements, and
  output slots that keep the contract of the boundary (a coordinate slot of the rank of the
  list, a value slot).  Then \<open>n\<close> calls of the get-next entry point in a row all return;
  the flags are \<open>continue\<close> for the first \<open>N\<close> calls and \<open>stop\<close> for every call after
  them (the \<open>(N+1)\<close>-th and all later ones); and the first \<open>N\<close> calls leave in the slots
  the coordinate tuples and values of the list, in the order of the list.
\<close>

theorem getNext_enumerates_then_stops:
  assumes "cells h iter = Some (IteratorObj V (SparseTensorIterator_new a c))"
    and "cells h a = Some (COOObj V c)" and "iter \<noteq> 0" and "iter \<noteq> a"
    and "descriptor_ok cref rank" and "value_slot_ok vref"
    and "\<forall>e \<in> set (coo_elements c). length (elem_coords e) = rank"
  shows "\<exists>tr. getNext_calls V ndebug n h iter cref vref = Inr tr \<and>
           map fst tr = replicate (min n (length (coo_elements c))) True
                        @ replicate (n - length (coo_elements c)) False \<and>
           take (length (coo_elements c)) (map snd tr)
             = map (\<lambda>e. (elem_coords e, [elem_value e])) (take n (coo_elements c))"
proof -
  have "iterator_at h V iter a c 0"
    using assms(1-4) by (simp add: iterator_at_def SparseTensorIterator_new_def)
  from getNext_calls_trace [OF this _ assms(5-7), of ndebug n] show ?thesis by simp
qed

theorem getNext_enumerates_then_stops_witness:
  "\<exists>tr. getNext_calls double False 4 example_heap 3 (Some example_cref) (Some example_vref) = Inr tr \<and>
        map fst tr = [True, True, False, False] \<and>
        take 2 (map snd tr) = [([0, 1], [5]), ([1, 2], [7])]"
proof -
  have els: "\<forall>e \<in> set (coo_elements example_coo). length (elem_coords e) = 2"
    by (simp add: example_coo_def)
  have it: "cells example_heap 3 = Some (IteratorObj double (SparseTensorIterator_new 2 example_coo))"
    and co: "cells example_heap 2 = Some (COOObj double example_coo)"
    by (simp_all add: example_heap_def)
  have cr: "descriptor_ok (Some example_cref) 2"
    by (simp add: descriptor_ok_def example_cref_def)
  have vr: "value_slot_ok (Some example_vref)"
    by (simp add: value_slot_ok_def example_vref_def)
  have len: "length (coo_elements example_coo) = 2"
    by (simp add: example_coo_def)
  have r: "replicate (min 4 2) True @ replicate (4 - 2) False = [True, True, False, False]"
    by (simp add: numeral_eq_Suc)
  have t: "map (\<lambda>e. (elem_coords e, [elem_value e])) (take 4 (coo_elements example_coo))
       = [([0, 1], [5]), ([1, 2], [7])]"
    by (simp add: example_coo_def)
  from getNext_enumerates_then_stops [OF it co _ _ cr vr els, of False 4]
  show ?thesis
    unfolding len r t by simp
qed

text \<open>The four calls on the example, evaluated.\<close>

lemma getNext_calls_example:
  "getNext_calls double False 4 example_heap 3 (Some example_cref) (Some example_vref)
     = Inr [(True, [0, 1], [5]), (True, [1, 2], [7]), (False, [1, 2], [7]), (False, [1, 2], [7])]"
  by code_simp

text \<open>
  Claim C9.  A call of the get-next entry point that returns the stop flag hands back both
  output slots as it received them: the descriptors and the memory behind them are
  unchanged.  A call that changes a slot is therefore a call that returns the continue flag.
\<close>

theorem getNext_stop_keeps_outputs:
  assumes "mlir_ciface_getNext V ndebug h iter cref vref = Inr (False, h', cref', vref')"
  shows "cref' = cref \<and> vref' = vref"
  using assms
  by (auto simp: mlir_ciface_getNext_def and_then_Inr_iff split: option.splits)

theorem getNext_stop_keeps_outputs_witness:
  "\<exists>h' cref' vref'.
     mlir_ciface_getNext double False example_heap_exhausted 3 (Some example_cref) (Some example_vref)
       = Inr (False, h', cref', vref') \<and>
     cref' = Some example_cref \<and> vref' = Some example_vref"
proof -
  have it: "iterator_at example_heap_exhausted double 3 2 example_coo 2"
    by (simp add: iterator_at_def example_heap_exhausted_def store_def example_heap_def
        example_coo_def)
  have cr: "descriptor_ok (Some example_cref) 2"
    by (simp add: descriptor_ok_def example_cref_def)
  have vr: "value_slot_ok (Some example_vref)"
    by (simp add: value_slot_ok_def example_vref_def)
  have call: "mlir_ciface_getNext double False example_heap_exhausted 3 (Some example_cref)
       (Some example_vref)
     = Inr (False, example_heap_exhausted, Some example_cref, Some example_vref)"
    by (rule getNext_stop [OF it _ cr vr]) (simp add: example_coo_def)
  from getNext_stop_keeps_outputs [OF call] call show ?thesis by simp
qed

section \<open>The open-iterator action\<close>

text \<open>
  Once the prologue and the chain have let one action through, every action on the same
  arguments runs the body of the same \<open>CASE\<close>.
\<close>

lemma dispatch_reaches_CASE:
  assumes "mlir_ciface_newSparseTensor lib ndebug h dimSizesRef lvlSizesRef lvlTypesRef dim2lvlRef
             lvl2dimRef posTp crdTp valTp action ptr = Inr r"
  shows "\<exists>dimRank dimSizes lvlRank lvlSizes lvlTypes dim2lvl lvl2dim P C V.
           \<forall>action'. mlir_ciface_newSparseTensor lib ndebug h dimSizesRef lvlSizesRef lvlTypesRef
                        dim2lvlRef lvl2dimRef posTp crdTp valTp action' ptr
                    = CASE lib ndebug h dimRank dimSizes lvlRank lvlSizes lvlTypes dim2lvl lvl2dim
                        action' ptr P C V"
  using assms
  unfolding mlir_ciface_newSparseTensor_def and_then_Inr_iff Let_def
  apply (clarsimp simp: MLIR_SPARSETENSOR_FATAL_def split: option.splits)
  apply (intro exI allI)
  apply (rule refl)
  done

lemma CASE_kToCOO_kToIterator:
  assumes "CASE lib ndebug h dimRank dimSizes lvlRank lvlSizes lvlTypes dim2lvl lvl2dim
             kToCOO ptr P C V = Inr (cooH, h1)"
  shows "\<exists>c. (cooH, h1) = new (COOObj V c) h \<and>
             CASE lib ndebug h dimRank dimSizes lvlRank lvlSizes lvlTypes dim2lvl lvl2dim
               kToIterator ptr P C V
             = Inr (new (IteratorObj V (SparseTensorIterator_new cooH c)) h1)"
proof -
  from assms obtain tensor c where
    a: "assert ndebug (ptr \<noteq> 0) ''Received nullptr for SparseTensorStorage object'' = Inr ()" and
    t: "as_Storage P C V h ptr = Inr tensor" and
    c: "toCOO lib P C V tensor lvlRank lvlSizes dimRank dim2lvl = Inr c" and
    n: "new (COOObj V c) h = (cooH, h1)"
    by (auto simp: CASE_def and_then_Inr_iff)
  have "CASE lib ndebug h dimRank dimSizes lvlRank lvlSizes lvlTypes dim2lvl lvl2dim
               kToIterator ptr P C V
             = Inr (new (IteratorObj V (SparseTensorIterator_new cooH c)) h1)"
    using a t c n by (simp add: CASE_def)
  with n [symmetric] show ?thesis by (intro exI conjI)
qed

lemma delete_iterator_at:
  assumes "iterator_at h V iter a c k" "a \<noteq> 0"
  shows "delSparseTensorIterator V h iter = Inr (delete iter (delete a h))"
  using assms
  by (simp add: delSparseTensorIterator_def iterator_at_def as_Iterator_def as_COO_def)


lemma new_cells:
  "new obj h = (a, h') \<Longrightarrow> a = brk h \<and> cells h' = (cells h)(a \<mapsto> obj) \<and> brk h' = Suc (brk h)"
  by (auto simp: new_def)

text \<open>
  Claim C4.  Whenever dispatching the enumerate-to-coordinate-list action returns a list
  \<open>c\<close> (so the triple is supported and the handle is a storage instance of that
  specialization), dispatching the open-iterator action on the same store and arguments
  returns an iterator that stands at the beginning of a list with the same content \<open>c\<close>,
  held at an address \<open>a\<close> that the iterator owns; calls of the get-next entry point on it
  deliver exactly the elements of \<open>c\<close>, in order, and then stop; and releasing the
  iterator releases the iterator and that list, leaving the store as it was before the
  dispatch.  (The store's next fresh address is not the null address.)
\<close>

theorem open_iterator_enumerates_toCOO:
  assumes "mlir_ciface_newSparseTensor lib ndebug h dimSizesRef lvlSizesRef lvlTypesRef dim2lvlRef
             lvl2dimRef posTp crdTp valTp kToCOO ptr = Inr (cooH, h1)"
    and "0 < brk h"
  shows "\<exists>V c iter a h2.
           cells h1 cooH = Some (COOObj V c) \<and>
           mlir_ciface_newSparseTensor lib ndebug h dimSizesRef lvlSizesRef lvlTypesRef dim2lvlRef
             lvl2dimRef posTp crdTp valTp kToIterator ptr = Inr (iter, h2) \<and>
           iterator_at h2 V iter a c 0 \<and>
           (\<forall>n nd cref vref rank.
              descriptor_ok cref rank \<and> value_slot_ok vref \<and>
              (\<forall>e \<in> set (coo_elements c). length (elem_coords e) = rank) \<longrightarrow>
              (\<exists>tr. getNext_calls V nd n h2 iter cref vref = Inr tr \<and>
                 map fst tr = replicate (min n (length (coo_elements c))) True
                              @ replicate (n - length (coo_elements c)) False \<and>
                 take (length (coo_elements c)) (map snd tr)
                   = map (\<lambda>e. (elem_coords e, [elem_value e])) (take n (coo_elements c)))) \<and>
           (\<exists>h3. delSparseTensorIterator V h2 iter = Inr h3 \<and>
                 cells h3 = (cells h)(a := None, iter := None))"
proof -
  from dispatch_reaches_CASE [OF assms(1)]
  obtain dimRank dimSizes lvlRank lvlSizes lvlTypes dim2lvl lvl2dim P C V where
    disp: "\<And>action'. mlir_ciface_newSparseTensor lib ndebug h dimSizesRef lvlSizesRef lvlTypesRef
                        dim2lvlRef lvl2dimRef posTp crdTp valTp action' ptr
                    = CASE lib ndebug h dimRank dimSizes lvlRank lvlSizes lvlTypes dim2lvl lvl2dim
                        action' ptr P C V"
    by blast
  from assms(1) have "CASE lib ndebug h dimRank dimSizes lvlRank lvlSizes lvlTypes dim2lvl lvl2dim
                        kToCOO ptr P C V = Inr (cooH, h1)"
    by (simp add: disp)
  from CASE_kToCOO_kToIterator [OF this]
  obtain c where
    n1: "new (COOObj V c) h = (cooH, h1)" and
    it: "CASE lib ndebug h dimRank dimSizes lvlRank lvlSizes lvlTypes dim2lvl lvl2dim
               kToIterator ptr P C V
             = Inr (new (IteratorObj V (SparseTensorIterator_new cooH c)) h1)"
    by auto
  obtain iter h2 where n2: "new (IteratorObj V (SparseTensorIterator_new cooH c)) h1 = (iter, h2)"
    by (cases "new (IteratorObj V (SparseTensorIterator_new cooH c)) h1")
  have h1: "cooH = brk h" "cells h1 = (cells h)(cooH \<mapsto> COOObj V c)" "brk h1 = Suc (brk h)"
    using new_cells [OF n1] by simp_all
  have h2: "iter = Suc (brk h)"
    "cells h2 = (cells h1)(iter \<mapsto> IteratorObj V (SparseTensorIterator_new cooH c))"
    using new_cells [OF n2] h1 by simp_all
  have listed: "cells h1 cooH = Some (COOObj V c)"
    by (simp add: h1)
  have call: "mlir_ciface_newSparseTensor lib ndebug h dimSizesRef lvlSizesRef lvlTypesRef dim2lvlRef
             lvl2dimRef posTp crdTp valTp kToIterator ptr = Inr (iter, h2)"
    by (simp add: disp it n2)
  have at: "iterator_at h2 V iter cooH c 0"
    using h1 h2 by (simp add: iterator_at_def SparseTensorIterator_new_def)
  have enum: "\<exists>tr. getNext_calls V nd n h2 iter cref vref = Inr tr \<and>
                 map fst tr = replicate (min n (length (coo_elements c))) True
                              @ replicate (n - length (coo_elements c)) False \<and>
                 take (length (coo_elements c)) (map snd tr)
                   = map (\<lambda>e. (elem_coords e, [elem_value e])) (take n (coo_elements c))"
    if "descriptor_ok cref rank" "value_slot_ok vref"
       "\<forall>e \<in> set (coo_elements c). length (elem_coords e) = rank"
    for n nd cref vref rank
    using getNext_calls_trace [OF at _ that, of nd n] by simp
  have "cooH \<noteq> 0" using assms(2) h1 by simp
  from delete_iterator_at [OF at this]
  have del: "delSparseTensorIterator V h2 iter = Inr (delete iter (delete cooH h2))" .
  have freed: "cells (delete iter (delete cooH h2)) = (cells h)(cooH := None, iter := None)"
    using h1 h2 by (auto simp: delete_def fun_eq_iff)
  show ?thesis
    using listed call at enum del freed by blast
qed

lemma example_kToCOO:
  "mlir_ciface_newSparseTensor example_library False example_heap (Some example_sizes)
     (Some example_sizes) (Some example_types) (Some example_perm) (Some example_perm)
     kIndex kU64 kF64 kToCOO 4
   = Inr (new (COOObj double example_coo) example_heap)"
proof -
  have ok: "descriptor_ok (Some example_sizes) 2" "descriptor_ok (Some example_types) 2"
    "descriptor_ok (Some example_perm) 2"
    by (simp_all add: descriptor_ok_def example_sizes_def example_types_def example_perm_def)
  have m: "first_match newSparseTensor_cases (rewrite_kIndex kIndex) (rewrite_kIndex kU64) kF64
      = Some (uint64_t, uint64_t, double)"
    by (simp add: newSparseTensor_cases_def rewrite_kIndex_def)
  show ?thesis
    unfolding mlir_ciface_newSparseTensor_def
    by (simp add: ASSERT_NO_STRIDE_ok [OF ok(1)] ASSERT_NO_STRIDE_ok [OF ok(2)]
        ASSERT_NO_STRIDE_ok [OF ok(3)] MEMREF_GET_USIZE_ok [OF ok(1)]
        ASSERT_USIZE_EQ_ok [OF ok(1)] ASSERT_USIZE_EQ_ok [OF ok(2)] ASSERT_USIZE_EQ_ok [OF ok(3)]
        m CASE_def assert_def as_Storage_def example_heap_def example_library_def)
qed

theorem open_iterator_enumerates_toCOO_witness:
  "\<exists>iter a h2 h3.
     mlir_ciface_newSparseTensor example_library False example_heap (Some example_sizes)
       (Some example_sizes) (Some example_types) (Some example_perm) (Some example_perm)
       kIndex kU64 kF64 kToIterator 4 = Inr (iter, h2) \<and>
     iterator_at h2 double iter a example_coo 0 \<and>
     delSparseTensorIterator double h2 iter = Inr h3 \<and>
     cells h3 = (cells example_heap)(a := None, iter := None)"
proof -
  obtain cooH h1 where n: "new (COOObj double example_coo) example_heap = (cooH, h1)"
    by (cases "new (COOObj double example_coo) example_heap")
  then have at: "cells h1 cooH = Some (COOObj double example_coo)"
    by (auto simp: new_def)
  have "0 < brk example_heap"
    by (simp add: example_heap_def)
  from open_iterator_enumerates_toCOO [OF example_kToCOO [unfolded n] this] at
  show ?thesis by auto
qed

section \<open>Adding an element\<close>

text \<open>The loop that scatters the dimension coordinates to their levels.\<close>

lemma scatter_loop:
  assumes "n \<le> r" "r \<le> length dim2lvl" "r \<le> length dimCoords"
    and rng: "\<And>d. d < r \<Longrightarrow> unat (dim2lvl ! d) < r"
    and inj: "\<And>d d'. d < r \<Longrightarrow> d' < r \<Longrightarrow> unat (dim2lvl ! d) = unat (dim2lvl ! d') \<Longrightarrow> d = d'"
  shows "\<exists>L. for_loop [0..<n]
                (\<lambda>d lvlCoords.
                    and_then (read_at dim2lvl d) (\<lambda>l.
                    and_then (read_at dimCoords d) (\<lambda>x.
                      write_at lvlCoords (unat l) x)))
                (replicate r (0 :: index_type)) = Inr L \<and>
             length L = r \<and> (\<forall>d<n. L ! unat (dim2lvl ! d) = dimCoords ! d)"
  using assms(1)
proof (induction n)
  case 0
  then show ?case by simp
next
  case (Suc n)
  define body where "body = (\<lambda>d lvlCoords.
                    and_then (read_at dim2lvl d) (\<lambda>l.
                    and_then (read_at dimCoords d) (\<lambda>x.
                      write_at lvlCoords (unat l) x)))"
  from Suc obtain L where
    L: "for_loop [0..<n] body (replicate r 0) = Inr L" "length L = r"
      "\<forall>d<n. L ! unat (dim2lvl ! d) = dimCoords ! d"
    unfolding body_def by auto
  have n: "n < r" using Suc.prems by simp
  define L' where "L' = L[unat (dim2lvl ! n) := dimCoords ! n]"
  have step: "body n L = Inr L'"
    using n assms(2,3) rng [OF n] L(2)
    by (simp add: body_def read_at_def write_at_def L'_def)
  have "for_loop [0..<Suc n] body (replicate r 0) = Inr L'"
    using L(1) step by (simp add: for_loop_append)
  moreover have "length L' = r"
    by (simp add: L'_def L(2))
  moreover have "L' ! unat (dim2lvl ! d) = dimCoords ! d" if "d < Suc n" for d
  proof (cases "d = n")
    case True
    then show ?thesis using rng [OF n] L(2) by (simp add: L'_def)
  next
    case False
    with that have d: "d < n" by simp
    then have "unat (dim2lvl ! d) \<noteq> unat (dim2lvl ! n)"
      using inj [of d n] n by auto
    then show ?thesis using L(3) d by (simp add: L'_def)
  qed
  ultimately show ?case
    unfolding body_def by blast
qed

lemma is_permutation_range:
  assumes "is_permutation p" "d < length p"
  shows "unat (p ! d) < length p"
proof -
  have "unat (p ! d) \<in> set (map unat p)" using assms(2) by simp
  then show ?thesis using assms(1) by (simp add: is_permutation_def)
qed

lemma is_permutation_inj:
  assumes "is_permutation p" "d < length p" "d' < length p" "unat (p ! d) = unat (p ! d')"
  shows "d = d'"
proof -
  have "distinct (map unat p)" using assms(1) by (simp add: is_permutation_def)
  moreover have "map unat p ! d = map unat p ! d'" using assms by simp
  ultimately show ?thesis
    using assms(2,3) nth_eq_iff_index_eq [of "map unat p" d d'] by simp
qed

text \<open>
  Claim C10.  For an add-element call on a coordinate list, with dimension coordinates of
  rank \<open>r\<close> and a dimension-to-level mapping that is a permutation of \<open>0..r-1\<close> (and
  arguments that keep the contract of the boundary), the call returns the handle it was
  given, and the store differs only in that the list behind the handle has one more
  element at its end: the value of the value slot with level coordinates of length \<open>r\<close>
  whose entry at position \<open>dim2lvl[d]\<close> is the dimension coordinate at position \<open>d\<close>, for
  every \<open>d < r\<close>.
\<close>

theorem addElt_permutes_coordinates:
  assumes dc: "descriptor_ok dimCoordsRef r" and dl: "descriptor_ok dim2lvlRef r"
    and vr: "value_slot_ok vref" and nn: "lvlCOO \<noteq> 0"
    and co: "cells h lvlCOO = Some (COOObj V c)"
    and perm: "is_permutation (contents dim2lvlRef)"
  shows "\<exists>lvlCoords.
           mlir_ciface_addElt V ndebug h lvlCOO vref dimCoordsRef dim2lvlRef
             = Inr (lvlCOO, store lvlCOO (COOObj V (c\<lparr>coo_elements := coo_elements c @
                      [\<lparr>elem_coords = lvlCoords, elem_value = hd (value_slot vref)\<rparr>]\<rparr>)) h) \<and>
           length lvlCoords = r \<and>
           (\<forall>d<r. lvlCoords ! unat (contents dim2lvlRef ! d) = contents dimCoordsRef ! d)"
proof -
  obtain dm lm vm where some: "dimCoordsRef = Some dm" "dim2lvlRef = Some lm" "vref = Some vm"
    using dc dl vr by (auto simp: descriptor_ok_def value_slot_ok_def split: option.splits)
  define dimCoords where "dimCoords = drop (offset dm) (data dm)"
  define dim2lvl where "dim2lvl = drop (offset lm) (data lm)"
  define val where "val = drop (offset vm) (data vm)"
  have cd: "contents dimCoordsRef = take r dimCoords" and cl: "contents dim2lvlRef = take r dim2lvl"
    and lens: "r \<le> length dimCoords" "r \<le> length dim2lvl"
    using dc dl by (auto simp: some descriptor_ok_def contents_def dimCoords_def dim2lvl_def)
  have lenl: "length (contents dim2lvlRef) = r"
    using lens by (simp add: cl)
  have rng: "unat (dim2lvl ! d) < r" if "d < r" for d
    using is_permutation_range [OF perm, of d] that lenl by (simp add: cl)
  have inj: "d = d'" if "d < r" "d' < r" "unat (dim2lvl ! d) = unat (dim2lvl ! d')" for d d'
    using is_permutation_inj [OF perm, of d d'] that lenl by (simp add: cl)
  from scatter_loop [OF order_refl lens(2,1) rng inj]
  obtain L where
    L: "for_loop [0..<r]
                (\<lambda>d lvlCoords.
                    and_then (read_at dim2lvl d) (\<lambda>l.
                    and_then (read_at dimCoords d) (\<lambda>x.
                      write_at lvlCoords (unat l) x)))
                (replicate r 0) = Inr L" "length L = r"
      "\<forall>d<r. L ! unat (dim2lvl ! d) = dimCoords ! d"
    by blast
  have v: "val \<noteq> []" "value_slot vref = take 1 val"
    using vr by (simp_all add: some value_slot_ok_def value_slot_def val_def)
  then have rd: "read_at val 0 = Inr (hd (value_slot vref))"
    by (cases val) (simp_all add: read_at_def)
  have call: "mlir_ciface_addElt V ndebug h lvlCOO vref dimCoordsRef dim2lvlRef
             = Inr (lvlCOO, store lvlCOO (COOObj V (c\<lparr>coo_elements := coo_elements c @
                      [\<lparr>elem_coords = L, elem_value = hd (value_slot vref)\<rparr>]\<rparr>)) h)"
    using nn co L(1) rd
    by (simp add: mlir_ciface_addElt_def assert_def ASSERT_NO_STRIDE_ok [OF dc]
        ASSERT_NO_STRIDE_ok [OF dl] MEMREF_GET_USIZE_ok [OF dc] ASSERT_USIZE_EQ_ok [OF dl]
        as_COO_def add_def)
      (simp add: some dimCoords_def [symmetric] dim2lvl_def [symmetric] val_def [symmetric])
  have "\<forall>d<r. L ! unat (contents dim2lvlRef ! d) = contents dimCoordsRef ! d"
    using L(3) by (simp add: cd cl)
  with call L(2) show ?thesis by blast
qed

theorem addElt_permutes_coordinates_witness:
  "mlir_ciface_addElt double False example_heap 2 (Some example_value) (Some example_dimCoords)
     (Some example_perm)
   = Inr (2, store 2 (COOObj double (example_coo\<lparr>coo_elements := coo_elements example_coo @
            [\<lparr>elem_coords = [1, 2], elem_value = 9\<rparr>]\<rparr>)) example_heap)"
proof -
  have dc: "descriptor_ok (Some example_dimCoords) 2" and dl: "descriptor_ok (Some example_perm) 2"
    by (simp_all add: descriptor_ok_def example_dimCoords_def example_perm_def)
  have vr: "value_slot_ok (Some example_value)"
    by (simp add: value_slot_ok_def example_value_def)
  have co: "cells example_heap 2 = Some (COOObj double example_coo)"
    by (simp add: example_heap_def)
  have c: "contents (Some example_perm) = [1, 0]" "contents (Some example_dimCoords) = [2, 1]"
    by (simp_all add: contents_def example_perm_def example_dimCoords_def)
  have perm: "is_permutation (contents (Some example_perm))"
    unfolding c by (auto simp: is_permutation_def)
  have v: "hd (value_slot (Some example_value)) = 9"
    by (simp add: value_slot_def example_value_def)
  from addElt_permutes_coordinates [OF dc dl vr _ co perm, of False]
  obtain L where
    call: "mlir_ciface_addElt double False example_heap 2 (Some example_value)
             (Some example_dimCoords) (Some example_perm)
           = Inr (2, store 2 (COOObj double (example_coo\<lparr>coo_elements := coo_elements example_coo @
                    [\<lparr>elem_coords = L, elem_value = 9\<rparr>]\<rparr>)) example_heap)" and
    len: "length L = 2" and
    nth: "\<forall>d<2. L ! unat (contents (Some example_perm) ! d) = contents (Some example_dimCoords) ! d"
    unfolding v by auto
  from nth [rule_format, of 0] nth [rule_format, of 1] have "L ! 1 = 2" "L ! 0 = 1"
    by (simp_all add: c)
  with len have "L = [1, 2]"
    by (cases L; cases "tl L") auto
  with call show ?thesis by simp
qed

section \<open>The writer\<close>

text \<open>Insertions into a good stream, the printing loop, and the text of decimal numbers.\<close>

lemma put_good: "good w \<Longrightarrow> put s w = w\<lparr>pending := pending w @ s\<rparr>"
  by (simp add: put_def)

lemma put_bad: "\<not> good w \<Longrightarrow> put s w = w"
  by (simp add: put_def)

lemma deliver_simps [simp]:
  "cells (deliver t s h) = cells h" "brk (deliver t s h) = brk h"
  "takes (deliver t s h) = takes h" "written (deliver t s h) t = written h t @ s"
  by (simp_all add: deliver_def)

lemma deliver_deliver: "deliver t b (deliver t a h) = deliver t (a @ b) h"
  by (simp add: deliver_def)

lemma deliver_Nil: "deliver t [] h = h"
  by (simp add: deliver_def)

lemma endl_good:
  "good w \<Longrightarrow> device_takes h (target w) (pending w @ ''\<newline>'') \<Longrightarrow>
   endl w h = (w\<lparr>pending := []\<rparr>, deliver (target w) (pending w @ ''\<newline>'') h)"
  by (simp add: endl_def flush_def put_def)

lemma endl_rejected:
  "good w \<Longrightarrow> \<not> device_takes h (target w) (pending w @ ''\<newline>'') \<Longrightarrow>
   endl w h =
     (w\<lparr>pending := drop (takes h (target w) (written h (target w)) (pending w @ ''\<newline>''))
                     (pending w @ ''\<newline>''),
        good := False\<rparr>,
      deliver (target w)
        (take (takes h (target w) (written h (target w)) (pending w @ ''\<newline>''))
           (pending w @ ''\<newline>'')) h)"
  by (simp add: endl_def flush_def put_def Let_def)

lemma endl_bad: "\<not> good w \<Longrightarrow> endl w h = (w, h)"
  by (simp add: endl_def flush_def put_def)

lemma print_loop:
  assumes "n \<le> length xs" "good w"
  shows "for_loop [0..<n]
           (\<lambda>d file. and_then (read_at xs d) (\<lambda>x. Inr (put '' '' (put (g x) file)))) w
         = Inr (w\<lparr>pending := pending w @ concat (map (\<lambda>x. g x @ '' '') (take n xs))\<rparr>)"
  using assms(1)
proof (induction n)
  case 0
  then show ?case by simp
next
  case (Suc n)
  define body where "body = (\<lambda>d file. and_then (read_at xs d) (\<lambda>x. Inr (put '' '' (put (g x) file))))"
  define w' where "w' = w\<lparr>pending := pending w @ concat (map (\<lambda>x. g x @ '' '') (take n xs))\<rparr>"
  have IH: "for_loop [0..<n] body w = Inr w'"
    using Suc by (simp add: body_def w'_def)
  have n: "n < length xs" using Suc.prems by simp
  have "good w'" using assms(2) by (simp add: w'_def)
  then have step: "body n w' = Inr (w\<lparr>pending := pending w @ concat (map (\<lambda>x. g x @ '' '') (take (Suc n) xs))\<rparr>)"
    using n by (simp add: body_def read_at_def put_good w'_def take_Suc_conv_app_nth)
  show ?case
    using IH step by (simp add: for_loop_append body_def [symmetric])
qed

lemma print_loop_bad:
  assumes "n \<le> length xs" "\<not> good w"
  shows "for_loop [0..<n]
           (\<lambda>d file. and_then (read_at xs d) (\<lambda>x. Inr (put '' '' (put (g x) file)))) w
         = Inr w"
  using assms(1)
proof (induction n)
  case 0
  then show ?case by simp
next
  case (Suc n)
  define body where "body = (\<lambda>d file. and_then (read_at xs d) (\<lambda>x. Inr (put '' '' (put (g x) file))))"
  have IH: "for_loop [0..<n] body w = Inr w"
    using Suc by (simp add: body_def)
  have "body n w = Inr w"
    using Suc.prems assms(2) by (simp add: body_def read_at_def put_bad)
  with IH show ?case
    by (simp add: for_loop_append body_def [symmetric])
qed

lemma unwords_snoc: "unwords (ws @ [w]) = concat (map (\<lambda>x. x @ '' '') ws) @ w"
  by (induction ws rule: unwords.induct) auto

lemma take_as_snoc: "0 < r \<Longrightarrow> r \<le> length xs \<Longrightarrow> take r xs = take (r - 1) xs @ [xs ! (r - 1)]"
  by (cases r) (simp_all add: take_Suc_conv_app_nth)

lemma digit_cases: "d < 10 \<Longrightarrow> d \<in> {0, 1, 2, 3, 4, 5, 6, 7, 8, 9 :: nat}"
  by auto

lemma digit_in: "d < 10 \<Longrightarrow> digit d \<in> set ''0123456789''"
  unfolding digit_def by (rule nth_mem) simp

lemma digit_value: "d < 10 \<Longrightarrow> (of_char (digit d) :: nat) = 48 + d"
  using digit_cases [of d] by (auto simp: digit_def)

lemma decimal_digits: "set (decimal n) \<subseteq> set ''0123456789''"
proof (induction n rule: decimal.induct)
  case (1 n)
  show ?case
  proof (cases "n < 10")
    case True
    then show ?thesis using digit_in [of n] by (simp add: decimal.simps [of n])
  next
    case False
    have "digit (n mod 10) \<in> set ''0123456789''" by (rule digit_in) simp
    with "1.IH" [OF False] False show ?thesis by (simp add: decimal.simps [of n])
  qed
qed

lemma decimal_no_newline: "CHR ''\<newline>'' \<notin> set (decimal n)"
  using decimal_digits [of n] by auto

lemma read_decimal_snoc: "read_decimal (s @ [c]) = 10 * read_decimal s + (of_char c - 48)"
  by (simp add: read_decimal_def)

lemma decimal_denotes: "read_decimal (decimal n) = n"
proof (induction n rule: decimal.induct)
  case (1 n)
  show ?case
  proof (cases "n < 10")
    case True
    then show ?thesis by (simp add: decimal.simps [of n] read_decimal_def digit_value)
  next
    case False
    have "n mod 10 < 10" by simp
    then have "(of_char (digit (n mod 10)) :: nat) - 48 = n mod 10"
      by (simp add: digit_value)
    with "1.IH" [OF False] False show ?thesis
      by (simp add: decimal.simps [of n] read_decimal_snoc)
  qed
qed

lemma unwords_chars: "set (unwords ws) \<subseteq> \<Union> (set ` set ws) \<union> {CHR '' ''}"
  by (induction ws rule: unwords.induct) auto

lemma unwords_decimal_no_newline: "CHR ''\<newline>'' \<notin> set (unwords (map (\<lambda>x. decimal (f x)) xs))"
proof
  assume "CHR ''\<newline>'' \<in> set (unwords (map (\<lambda>x. decimal (f x)) xs))"
  with unwords_chars [of "map (\<lambda>x. decimal (f x)) xs"]
  obtain x where "CHR ''\<newline>'' \<in> set (decimal (f x))" by auto
  with decimal_no_newline show False by blast
qed


lemma decimal_small: "n < 10 \<Longrightarrow> decimal n = [digit n]"
  by (simp add: decimal.simps)

text \<open>
  Claim C7.  For a write-header call with rank at least 1 on a stream that is good and
  whose device takes the two writes in full (and arguments that keep the contract of the
  boundary), the call returns with the stream good and nothing pending, and what the
  device has received more than before is what was pending, then the rank, a space, the
  non-zero count and the end of the line, then the dimension sizes, as many as the rank,
  separated by single spaces, and the end of the line.  Neither line holds a further line
  end.  On a stream fresh from \<open>createSparseTensorWriter\<close> this follows the comment line,
  as the file format has it (see the example after the theorem).
\<close>

theorem writer_header_lines:
  assumes rank: "dimRank \<noteq> 0" and ds: "descriptor_ok dimSizesRef (unat dimRank)"
    and p: "p \<noteq> 0" and w: "cells h p = Some (OStreamObj w)" and g: "good w"
    and acc1: "device_takes h (target w)
                 (pending w @ header_first_line dimRank nse @ ''\<newline>'')"
    and acc2: "device_takes
                 (deliver (target w) (pending w @ header_first_line dimRank nse @ ''\<newline>'') h)
                 (target w) (header_second_line (contents dimSizesRef) @ ''\<newline>'')"
  shows "mlir_ciface_outSparseTensorWriterMetaData ndebug h p dimRank nse dimSizesRef
         = Inr (store p (OStreamObj (w\<lparr>pending := []\<rparr>))
                  (deliver (target w)
                     (pending w @ header_first_line dimRank nse @ ''\<newline>'' @
                      header_second_line (contents dimSizesRef) @ ''\<newline>'') h)) \<and>
         header_first_line dimRank nse = decimal (unat dimRank) @ '' '' @ decimal (unat nse) \<and>
         header_second_line (contents dimSizesRef)
           = unwords (map (\<lambda>x. decimal (unat x)) (contents dimSizesRef)) \<and>
         length (contents dimSizesRef) = unat dimRank \<and>
         CHR ''\<newline>'' \<notin> set (header_first_line dimRank nse) \<and>
         CHR ''\<newline>'' \<notin> set (header_second_line (contents dimSizesRef))"
proof -
  obtain m where some: "dimSizesRef = Some m"
    using ds by (auto simp: descriptor_ok_def split: option.splits)
  define dimSizes where "dimSizes = drop (offset m) (data m)"
  define r where "r = unat dimRank"
  define r1 where "r1 = r - 1"
  define t where "t = target w"
  define L1 where "L1 = header_first_line dimRank nse"
  define L2 where "L2 = header_second_line (contents dimSizesRef)"
  have r: "0 < r" "unat (dimRank - 1) = r1"
    using rank by (simp_all add: r_def r1_def unat_gt_0 unat_minus_one)
  have len: "r \<le> length dimSizes" and cont: "contents dimSizesRef = take r dimSizes"
    using ds by (auto simp: some descriptor_ok_def contents_def dimSizes_def r_def)
  have pl: "MEMREF_GET_PAYLOAD dimSizesRef = Inr dimSizes"
    by (simp add: some dimSizes_def)
  define w0 where "w0 = put (decimal (unat nse)) (put '' '' (put (decimal r) w))"
  have w0: "w0 = w\<lparr>pending := pending w @ L1\<rparr>"
    using g by (simp add: w0_def put_good L1_def header_first_line_def r_def)
  define w1 where "w1 = w\<lparr>pending := []\<rparr>"
  define h1 where "h1 = deliver t (pending w @ L1 @ ''\<newline>'') h"
  have e1: "endl w0 h = (w1, h1)"
    using g acc1 endl_good [of w0 h] by (simp add: w0 w1_def h1_def t_def L1_def)
  have g1: "good w1" "target w1 = t" "pending w1 = []"
    using g by (simp_all add: w1_def t_def)
  define w2 where "w2 = w1\<lparr>pending := concat (map (\<lambda>x. decimal (unat x) @ '' '') (take r1 dimSizes))\<rparr>"
  have loop: "for_loop [0..<r1]
           (\<lambda>d file. and_then (read_at dimSizes d) (\<lambda>x. Inr (put '' '' (put (decimal (unat x)) file)))) w1
         = Inr w2"
    using print_loop [of r1 dimSizes w1 "\<lambda>x. decimal (unat x)"] len g1 by (simp add: r1_def w2_def)
  have last: "read_at dimSizes r1 = Inr (dimSizes ! r1)"
    using r len by (simp add: read_at_def r1_def)
  have line: "concat (map (\<lambda>x. decimal (unat x) @ '' '') (take r1 dimSizes))
                @ decimal (unat (dimSizes ! r1)) = L2"
    using take_as_snoc [OF r(1) len] unwords_snoc [of "map (\<lambda>x. decimal (unat x)) (take r1 dimSizes)"]
    by (simp add: comp_def r1_def L2_def header_second_line_def cont)
  define w3 where "w3 = put (decimal (unat (dimSizes ! r1))) w2"
  have w3: "w3 = w1\<lparr>pending := L2\<rparr>"
    using g1 line by (simp add: w3_def w2_def put_good)
  have acc2': "device_takes h1 (target w3) (pending w3 @ ''\<newline>'')"
    using acc2 by (simp add: w3 g1 h1_def t_def L1_def L2_def)
  have e2: "endl w3 h1 = (w1, deliver t (pending w @ L1 @ ''\<newline>'' @ L2 @ ''\<newline>'') h)"
    using endl_good [OF _ acc2'] g1 by (simp add: w3 h1_def deliver_deliver w1_def)
  have call: "mlir_ciface_outSparseTensorWriterMetaData ndebug h p dimRank nse dimSizesRef
         = Inr (store p (OStreamObj w1) (deliver t (pending w @ L1 @ ''\<newline>'' @ L2 @ ''\<newline>'') h))"
    using rank p w
    by (simp add: mlir_ciface_outSparseTensorWriterMetaData_def assert_def
        ASSERT_NO_STRIDE_ok [OF ds] as_Writer_def pl
        r_def [symmetric] r(2) w0_def [symmetric] e1 loop last w3_def [symmetric] e2)
  have first: "CHR ''\<newline>'' \<notin> set (header_first_line dimRank nse)"
    using decimal_no_newline by (simp add: header_first_line_def)
  have second: "CHR ''\<newline>'' \<notin> set (header_second_line (contents dimSizesRef))"
    using unwords_decimal_no_newline [of unat "contents dimSizesRef"]
    by (simp add: header_second_line_def)
  have "length (contents dimSizesRef) = unat dimRank"
    using len by (simp add: cont r_def)
  with call first second show ?thesis
    by (simp add: w1_def t_def L1_def L2_def header_first_line_def header_second_line_def)
qed

lemma example_create:
  "createSparseTensorWriter (\<lambda>f. True) initial_heap ''t.tns''
     = Inr (2, store 2 (OStreamObj \<lparr>pending = ''# extended FROSTT format\<newline>'', good = True,
                                     target = ''t.tns''\<rparr>)
                 (snd (ofstream (\<lambda>f. True) ''t.tns'' initial_heap)))"
  by (simp add: createSparseTensorWriter_def ofstream_def initial_heap_def new_def as_Writer_def
      put_def)

theorem writer_header_lines_witness:
  "\<exists>h1 h2. createSparseTensorWriter (\<lambda>f. True) initial_heap ''t.tns'' = Inr (2, h1) \<and>
     mlir_ciface_outSparseTensorWriterMetaData False h1 2 2 7 (Some example_sizes) = Inr h2 \<and>
     written h2 ''t.tns'' = ''# extended FROSTT format\<newline>2 7\<newline>3 3\<newline>'' \<and>
     as_Writer h2 2 = Inr \<lparr>pending = [], good = True, target = ''t.tns''\<rparr>"
proof -
  define w where "w = \<lparr>pending = ''# extended FROSTT format\<newline>'', good = True, target = ''t.tns''\<rparr>"
  define h1 where "h1 = store 2 (OStreamObj w) (snd (ofstream (\<lambda>f. True) ''t.tns'' initial_heap))"
  have ds: "descriptor_ok (Some example_sizes) (unat (2 :: index_type))"
    by (simp add: descriptor_ok_def example_sizes_def)
  have c: "contents (Some example_sizes) = [3, 3]"
    by (simp add: contents_def example_sizes_def)
  have cell: "cells h1 2 = Some (OStreamObj w)"
    by (simp add: h1_def store_def)
  have wr: "written h1 ''t.tns'' = []" and tk: "takes h1 = (\<lambda>t s c. length c)"
    by (simp_all add: h1_def store_def ofstream_def new_def initial_heap_def)
  have g: "good w" by (simp add: w_def)
  from writer_header_lines [OF _ ds _ cell g, of 7 False, THEN conjunct1]
  have "mlir_ciface_outSparseTensorWriterMetaData False h1 2 2 7 (Some example_sizes)
      = Inr (store 2 (OStreamObj (w\<lparr>pending := []\<rparr>))
               (deliver (target w)
                  (pending w @ header_first_line 2 7 @ ''\<newline>'' @
                   header_second_line (contents (Some example_sizes)) @ ''\<newline>'') h1))"
    by (simp add: device_takes_def tk)
  moreover have "header_first_line 2 7 = ''2 7''" "header_second_line [3, 3] = ''3 3''"
    by (simp_all add: header_first_line_def header_second_line_def decimal_small digit_def)
  ultimately have "mlir_ciface_outSparseTensorWriterMetaData False h1 2 2 7 (Some example_sizes)
      = Inr (store 2 (OStreamObj \<lparr>pending = [], good = True, target = ''t.tns''\<rparr>)
               (deliver ''t.tns'' ''# extended FROSTT format\<newline>2 7\<newline>3 3\<newline>'' h1))"
    by (simp add: c w_def)
  moreover have "written (store 2 (OStreamObj \<lparr>pending = [], good = True, target = ''t.tns''\<rparr>)
               (deliver ''t.tns'' ''# extended FROSTT format\<newline>2 7\<newline>3 3\<newline>'' h1)) ''t.tns''
      = ''# extended FROSTT format\<newline>2 7\<newline>3 3\<newline>''"
    by (simp add: store_def wr)
  moreover have "as_Writer (store 2 (OStreamObj \<lparr>pending = [], good = True, target = ''t.tns''\<rparr>)
               (deliver ''t.tns'' ''# extended FROSTT format\<newline>2 7\<newline>3 3\<newline>'' h1)) 2
      = Inr \<lparr>pending = [], good = True, target = ''t.tns''\<rparr>"
    by (simp add: as_Writer_def store_def)
  ultimately show ?thesis
    using example_create unfolding h1_def w_def by blast
qed

text \<open>
  When the device does not take the first write in full, the stream is left not good
  with the rest of that write pending, and the line of the sizes is never inserted.
\<close>

lemma writer_header_rejected:
  assumes rank: "dimRank \<noteq> 0" and ds: "descriptor_ok dimSizesRef (unat dimRank)"
    and p: "p \<noteq> 0" and w: "cells h p = Some (OStreamObj w)" and g: "good w"
    and rej: "\<not> device_takes h (target w)
                 (pending w @ header_first_line dimRank nse @ ''\<newline>'')"
  shows "mlir_ciface_outSparseTensorWriterMetaData ndebug h p dimRank nse dimSizesRef
         = Inr (store p
                  (OStreamObj
                     (w\<lparr>pending :=
                          drop (takes h (target w) (written h (target w))
                                  (pending w @ header_first_line dimRank nse @ ''\<newline>''))
                            (pending w @ header_first_line dimRank nse @ ''\<newline>''),
                        good := False\<rparr>))
                  (deliver (target w)
                     (take (takes h (target w) (written h (target w))
                              (pending w @ header_first_line dimRank nse @ ''\<newline>''))
                        (pending w @ header_first_line dimRank nse @ ''\<newline>'')) h))"
proof -
  obtain m where some: "dimSizesRef = Some m"
    using ds by (auto simp: descriptor_ok_def split: option.splits)
  define dimSizes where "dimSizes = drop (offset m) (data m)"
  define r where "r = unat dimRank"
  define r1 where "r1 = r - 1"
  define L1 where "L1 = header_first_line dimRank nse"
  define X where "X = pending w @ L1 @ ''\<newline>''"
  define n where "n = takes h (target w) (written h (target w)) X"
  have r: "0 < r" "unat (dimRank - 1) = r1"
    using rank by (simp_all add: r_def r1_def unat_gt_0 unat_minus_one)
  have len: "r \<le> length dimSizes"
    using ds by (auto simp: some descriptor_ok_def dimSizes_def r_def)
  have pl: "MEMREF_GET_PAYLOAD dimSizesRef = Inr dimSizes"
    by (simp add: some dimSizes_def)
  define w0 where "w0 = put (decimal (unat nse)) (put '' '' (put (decimal r) w))"
  have w0: "w0 = w\<lparr>pending := pending w @ L1\<rparr>"
    using g by (simp add: w0_def put_good L1_def header_first_line_def r_def)
  define w1 where "w1 = w\<lparr>pending := drop n X, good := False\<rparr>"
  define h1 where "h1 = deliver (target w) (take n X) h"
  have e1: "endl w0 h = (w1, h1)"
    using g rej endl_rejected [of w0 h] by (simp add: w0 w1_def h1_def L1_def X_def n_def)
  have b1: "\<not> good w1" by (simp add: w1_def)
  have loop: "for_loop [0..<r1]
           (\<lambda>d file. and_then (read_at dimSizes d) (\<lambda>x. Inr (put '' '' (put (decimal (unat x)) file)))) w1
         = Inr w1"
    using print_loop_bad [of r1 dimSizes w1 "\<lambda>x. decimal (unat x)"] len b1 by (simp add: r1_def)
  have last: "read_at dimSizes r1 = Inr (dimSizes ! r1)"
    using r len by (simp add: read_at_def r1_def)
  have e2: "endl (put (decimal (unat (dimSizes ! r1))) w1) h1 = (w1, h1)"
    using b1 by (simp add: put_bad endl_bad)
  have "mlir_ciface_outSparseTensorWriterMetaData ndebug h p dimRank nse dimSizesRef
         = Inr (store p (OStreamObj w1) h1)"
    using rank p w
    by (simp add: mlir_ciface_outSparseTensorWriterMetaData_def assert_def
        ASSERT_NO_STRIDE_ok [OF ds] as_Writer_def pl
        r_def [symmetric] r(2) w0_def [symmetric] e1 loop last e2)
  then show ?thesis
    by (simp add: w1_def h1_def n_def X_def L1_def)
qed

lemma example_header_on_full_device:
  "mlir_ciface_outSparseTensorWriterMetaData False example_heap 8 2 7 (Some example_sizes)
     = Inr (store 8 (OStreamObj \<lparr>pending = ''# x2 7\<newline>'', good = False, target = ''/dev/full''\<rparr>)
              example_heap)"
proof -
  have ds: "descriptor_ok (Some example_sizes) (unat (2 :: index_type))"
    by (simp add: descriptor_ok_def example_sizes_def)
  have cell: "cells example_heap 8
      = Some (OStreamObj \<lparr>pending = ''# x'', good = True, target = ''/dev/full''\<rparr>)"
    by (simp add: example_heap_def)
  have rej: "\<not> device_takes example_heap ''/dev/full'' ''# x2 7\<newline>''"
    and n: "takes example_heap ''/dev/full'' = (\<lambda>s c. 0)"
    by (simp_all add: example_heap_def device_takes_def)
  from writer_header_rejected [OF _ ds _ cell, of 7 False]
  show ?thesis
    by (simp add: rej n deliver_Nil header_first_line_def decimal_small digit_def)
qed








text \<open>
  Claim C5, as the code has it.  Releasing a writer flushes the stream first; the check
  that follows is an \<open>assert\<close> on the state the flush has left.  When the stream was good
  and the device took all that was pending, the call returns in every build, the device
  has received what was pending, and the stream is released (unless it is the standard
  output).  When the stream was not good, or the device did not take all that was
  pending, a build with assertions aborts the process with the message of the assertion,
  and a build without them (\<open>NDEBUG\<close>) releases the stream and returns, the device
  having received what it took.
\<close>

theorem delSparseTensorWriter_flush_then_assert:
  assumes "cells h p = Some (OStreamObj w)"
  shows "(good w \<and> device_takes h (target w) (pending w) \<longrightarrow>
            delSparseTensorWriter ndebug h p
              = Inr (if p \<noteq> std_cout then delete p (deliver (target w) (pending w) h)
                     else store p (OStreamObj (w\<lparr>pending := []\<rparr>))
                            (deliver (target w) (pending w) h))) \<and>
         (good w \<and> \<not> device_takes h (target w) (pending w) \<longrightarrow>
            delSparseTensorWriter False h p = Inl (AssertionFailed ''file->good()'') \<and>
            delSparseTensorWriter True h p
              = Inr (if p \<noteq> std_cout
                     then delete p
                            (deliver (target w)
                               (take (takes h (target w) (written h (target w)) (pending w))
                                  (pending w)) h)
                     else store p
                            (OStreamObj
                               (w\<lparr>pending :=
                                    drop (takes h (target w) (written h (target w)) (pending w))
                                      (pending w),
                                  good := False\<rparr>))
                            (deliver (target w)
                               (take (takes h (target w) (written h (target w)) (pending w))
                                  (pending w)) h))) \<and>
         (\<not> good w \<longrightarrow>
            delSparseTensorWriter False h p = Inl (AssertionFailed ''file->good()'') \<and>
            delSparseTensorWriter True h p
              = Inr (if p \<noteq> std_cout then delete p h else store p (OStreamObj w) h))"
  using assms
  by (simp add: delSparseTensorWriter_def as_Writer_def assert_def flush_def Let_def)

theorem delSparseTensorWriter_flush_then_assert_witness:
  "delSparseTensorWriter False example_heap 8 = Inl (AssertionFailed ''file->good()'') \<and>
   delSparseTensorWriter True example_heap 8 = Inr (delete 8 example_heap) \<and>
   delSparseTensorWriter False example_heap 7
     = Inr (delete 7 (deliver ''out.tns'' ''# x'' example_heap))"
proof -
  have full: "cells example_heap 8
      = Some (OStreamObj \<lparr>pending = ''# x'', good = True, target = ''/dev/full''\<rparr>)"
    and used: "cells example_heap 7
      = Some (OStreamObj \<lparr>pending = ''# x'', good = True, target = ''out.tns''\<rparr>)"
    by (simp_all add: example_heap_def)
  have ac: "\<not> device_takes example_heap ''/dev/full'' ''# x''"
    "device_takes example_heap ''out.tns'' ''# x''"
    "takes example_heap ''/dev/full'' = (\<lambda>s c. 0)"
    by (simp_all add: example_heap_def device_takes_def)
  from delSparseTensorWriter_flush_then_assert [OF full, of False]
    delSparseTensorWriter_flush_then_assert [OF used, of False]
  show ?thesis
    by (simp add: ac std_cout_def deliver_Nil)
qed

text \<open>
  The claim as the spec states it (a stream that is not good always ends the process)
  fails in a build without assertions: the file stream at address 6 of the example store
  is not good, the stream at address 8 is not good once its device has refused the flush,
  and releasing either returns.
\<close>

theorem delSparseTensorWriter_bad_stream_returns:
  "cells example_heap 6
     = Some (OStreamObj \<lparr>pending = ''# x'', good = False, target = ''closed.tns''\<rparr>) \<and>
   \<not> good \<lparr>pending = ''# x'', good = False, target = ''closed.tns''\<rparr> \<and>
   \<not> isl (delSparseTensorWriter True example_heap 6) \<and>
   \<not> isl (delSparseTensorWriter True example_heap 8)"
  by (simp add: delSparseTensorWriter_def as_Writer_def assert_def flush_def example_heap_def
      device_takes_def Let_def)

section \<open>The file name of a tensor\<close>

lemma decimal_length: "0 < k \<Longrightarrow> n < 10 ^ k \<Longrightarrow> length (decimal n) \<le> k"
proof (induction n arbitrary: k rule: decimal.induct)
  case (1 n)
  show ?case
  proof (cases "n < 10")
    case True
    then show ?thesis using "1.prems" by (simp add: decimal.simps)
  next
    case False
    then obtain j where k: "k = Suc j"
      using "1.prems" by (cases k) auto
    have "0 < j"
      using False "1.prems" k by (cases j) auto
    moreover have "n div 10 < 10 ^ j"
      using "1.prems" k by (simp add: less_mult_imp_div_less mult.commute)
    ultimately have "length (decimal (n div 10)) \<le> j"
      using "1.IH" [OF False] by simp
    then show ?thesis
      using False k by (simp add: decimal.simps [of n])
  qed
qed

text \<open>
  Claim C8.  For every identifier, \<open>getTensorFilename\<close> looks up the variable whose name is
  \<open>TENSOR\<close> followed by the decimal form of the identifier (the 80-byte buffer never
  cuts the name short); it returns the value of the variable when it is set, and ends in
  the fatal diagnostic that names the variable when it is not.  (\<open>decimal\<close> is the decimal
  form: \<open>decimal_denotes\<close> and \<open>decimal_digits\<close>.)
\<close>

theorem getTensorFilename_lookup:
  "getTensorFilename getenv id' =
     (case getenv (''TENSOR'' @ decimal (unat id')) of
        None \<Rightarrow> Inl (Fatal ''Environment variable %s is not set\<newline>''
                       [ArgString (''TENSOR'' @ decimal (unat id'))])
      | Some env \<Rightarrow> Inr env)"
proof -
  have "unat id' < 2 ^ 64"
    using unsigned_less [of id'] by simp
  then have "unat id' < 10 ^ 20" by simp
  then have "length (decimal (unat id')) \<le> 20"
    using decimal_length [of 20 "unat id'"] by simp
  then have "snprintf BUF_SIZE (''TENSOR'' @ decimal (unat id')) = ''TENSOR'' @ decimal (unat id')"
    by (simp add: snprintf_def BUF_SIZE_def)
  then show ?thesis
    by (simp add: getTensorFilename_def MLIR_SPARSETENSOR_FATAL_def Let_def split: option.splits)
qed

theorem getTensorFilename_lookup_witness:
  "getTensorFilename example_env 7 = Inr ''/data/wide.tns'' \<and>
   getTensorFilename example_env 8
     = Inl (Fatal ''Environment variable %s is not set\<newline>'' [ArgString ''TENSOR8''])"
  using getTensorFilename_lookup [of example_env 7] getTensorFilename_lookup [of example_env 8]
  by (simp add: example_env_def decimal_small digit_def)

end
